theory Spec2Isabelle
  imports Main "HOL-Library.Sublist"
begin

section \<open>Data model\<close>

text \<open>
  The offer/response workflow of the freight-brokerage backend: the tendering service
  (\<^verbatim>\<open>carriers/services/tendering.service.ts\<close>), the dispatch service
  (\<^verbatim>\<open>dispatch/dispatch.service.ts\<close>) and the inbound SMS webhook
  (\<^verbatim>\<open>dispatch/webhooks.controller.ts\<close>).

  Identifiers (uuids) are strings. A \<^verbatim>\<open>Date\<close> is its millisecond timestamp, an
  \<open>int\<close>; a nullable column is an \<open>option\<close>. Each operation reads the clock once:
  the parameter \<open>now\<close> stands for the \<^verbatim>\<open>new Date()\<close> calls of one request.
  Record fields carry a prefix naming their entity (\<open>lt_\<close> load tender, \<open>sh_\<close>
  shipment, \<open>dr_\<close> driver, \<open>da_\<close> dispatch assignment), and enum members the
  prefix of their enum, since several enums share member names.
\<close>

type_synonym timestamp = int

datatype TenderStatus =
  T_OFFERED | T_ACCEPTED | T_REJECTED | T_EXPIRED | T_CANCELLED | T_WITHDRAWN

text \<open>
  \<^verbatim>\<open>ShipmentStatus\<close> as the shipment entity declares it: six members, none for a
  dispatched and none for a confirmed shipment.
\<close>

datatype ShipmentStatus =
  S_QUOTE | S_TENDERED | S_BOOKED | S_IN_TRANSIT | S_DELIVERED | S_CANCELLED

fun ShipmentStatus_value :: "ShipmentStatus \<Rightarrow> string" where
  "ShipmentStatus_value S_QUOTE = ''QUOTE''"
| "ShipmentStatus_value S_TENDERED = ''TENDERED''"
| "ShipmentStatus_value S_BOOKED = ''BOOKED''"
| "ShipmentStatus_value S_IN_TRANSIT = ''IN_TRANSIT''"
| "ShipmentStatus_value S_DELIVERED = ''DELIVERED''"
| "ShipmentStatus_value S_CANCELLED = ''CANCELLED''"

datatype DriverStatus =
  DR_ACTIVE | DR_INACTIVE | DR_ON_LOAD | DR_OFF_DUTY | DR_SICK | DR_VACATION

datatype DispatchStatus =
  D_DISPATCHED | D_CONFIRMED | D_REJECTED | D_COMPLETED | D_CANCELLED

fun DispatchStatus_value :: "DispatchStatus \<Rightarrow> string" where
  "DispatchStatus_value D_DISPATCHED = ''DISPATCHED''"
| "DispatchStatus_value D_CONFIRMED = ''CONFIRMED''"
| "DispatchStatus_value D_REJECTED = ''REJECTED''"
| "DispatchStatus_value D_COMPLETED = ''COMPLETED''"
| "DispatchStatus_value D_CANCELLED = ''CANCELLED''"

datatype DispatchType = PRIMARY | BACKUP | EMERGENCY

record User =
  u_id :: string
  u_email :: string
  u_firstName :: string
  u_lastName :: string
  u_companyId :: string

text \<open>One element of the \<^verbatim>\<open>auditTrail\<close> JSON array of a tender.\<close>

record AuditEntry =
  ae_action :: string
  ae_timestamp :: timestamp
  ae_userId :: "string option"
  ae_notes :: "string option"

text \<open>The \<^verbatim>\<open>carrierResponse\<close> JSON object of a tender.\<close>

record CarrierResponse =
  cr_action :: string
  cr_timestamp :: timestamp
  cr_userId :: string
  cr_reason :: "string option"

record LoadTender =
  lt_id :: string
  lt_shipmentId :: string
  lt_carrierId :: string
  lt_status :: TenderStatus
  lt_offerExpiryDate :: "timestamp option"
  lt_responseDate :: "timestamp option"
  lt_responseNotes :: "string option"
  lt_carrierResponse :: "CarrierResponse option"
  lt_acceptedDate :: "timestamp option"
  lt_acceptedById :: "string option"
  lt_rejectedDate :: "timestamp option"
  lt_rejectedById :: "string option"
  lt_cancelledDate :: "timestamp option"
  lt_cancelledById :: "string option"
  lt_cancellationReason :: "string option"
  lt_auditTrail :: "AuditEntry list option"

record Shipment =
  sh_id :: string
  sh_tenantId :: string
  sh_status :: ShipmentStatus
  sh_carrierId :: "string option"
  sh_assignedDriverId :: "string option"
  sh_updatedById :: "string option"

text \<open>
  The \<^verbatim>\<open>medicalCertificate\<close> JSON object of a driver. \<open>mc_expirationDate\<close>
  is \<open>Some t\<close> when the stored value is truthy and \<^verbatim>\<open>new Date\<close> of it
  is the instant \<open>t\<close>; \<open>None\<close> when the property is absent, falsy, or not a date
  (an invalid date compares false with every date).
\<close>

record MedicalCertificate =
  mc_expirationDate :: "timestamp option"

text \<open>
  A value of a \<^verbatim>\<open>date\<close> column as the service receives it: the
  \<^verbatim>\<open>YYYY-MM-DD\<close> string the driver DTO and the database hand over (the entity
  declares the property as \<^verbatim>\<open>Date\<close>, but no code converts it), together with
  the instant that string denotes, which is what \<^verbatim>\<open>new Date\<close> of it would be.
  The service reads \<open>dc_text\<close> only.
\<close>

record DateColumn =
  dc_text :: string
  dc_instant :: timestamp

record Driver =
  dr_id :: string
  dr_firstName :: string
  dr_lastName :: string
  dr_phoneNumber :: string
  dr_licenseExpirationDate :: "DateColumn option"
  dr_status :: DriverStatus
  dr_medicalCertificate :: "MedicalCertificate option"
  dr_lastDispatchDate :: "timestamp option"
  dr_completedLoads :: int
  dr_isActive :: bool

text \<open>One element of the \<^verbatim>\<open>communicationLog\<close> JSON array of an assignment.\<close>

record CommunicationEntry =
  ce_type :: string
  ce_timestamp :: timestamp
  ce_recipient :: "string option"
  ce_response :: "string option"
  ce_processedBy :: "string option"
  ce_status :: string

record ResponseDetails =
  rd_responseType :: string
  rd_timestamp :: timestamp
  rd_processedBy :: string

record DispatchDetails =
  dd_scheduledFor :: "timestamp option"
  dd_dispatcherName :: string
  dd_dispatcherId :: string

record DispatchAssignment =
  da_id :: string
  da_tenantId :: string
  da_shipmentId :: string
  da_driverId :: string
  da_status :: DispatchStatus
  da_dispatchType :: DispatchType
  da_sentAt :: "timestamp option"
  da_confirmedAt :: "timestamp option"
  da_rejectedAt :: "timestamp option"
  da_dispatchMessage :: "string option"
  da_dispatchDetails :: "DispatchDetails option"
  da_responseDetails :: "ResponseDetails option"
  da_communicationLog :: "CommunicationEntry list option"

text \<open>
  The relational store: one list of rows per table, in table order. The primary key of
  a table is the \<open>id\<close> field of its rows; that the ids of a table are distinct is a
  property of the store the theorems assume where they need it.
\<close>

record store =
  tenders :: "LoadTender list"
  shipments :: "Shipment list"
  drivers :: "Driver list"
  assignments :: "DispatchAssignment list"

text \<open>The exceptions the services raise, with their messages.\<close>

datatype error =
  NotFoundException string
| BadRequestException string
| TypeError string

fun error_message :: "error \<Rightarrow> string" where
  "error_message (NotFoundException m) = m"
| "error_message (BadRequestException m) = m"
| "error_message (TypeError m) = m"

section \<open>Repository operations\<close>

text \<open>
  \<^verbatim>\<open>findOne({where})\<close> is the first row that satisfies the criteria
  (\<^const>\<open>List.find\<close>); \<^verbatim>\<open>manager.update(Entity, criteria, partial)\<close> applies
  the partial update to every row that satisfies the criteria and leaves the others.
\<close>

definition updateWhere :: "('r \<Rightarrow> bool) \<Rightarrow> ('r \<Rightarrow> 'r) \<Rightarrow> 'r list \<Rightarrow> 'r list" where
  "updateWhere crit partial rows = map (\<lambda>r. if crit r then partial r else r) rows"

text \<open>\<^verbatim>\<open>a || []\<close> on a nullable JSON array.\<close>

fun orEmpty :: "'a list option \<Rightarrow> 'a list" where
  "orEmpty None = []"
| "orEmpty (Some xs) = xs"

text \<open>
  \<^verbatim>\<open>new Date() > d\<close> on a nullable timestamp column: the operands are compared
  as numbers, and \<^verbatim>\<open>null\<close> converts to 0.
\<close>

fun dateAfter :: "timestamp \<Rightarrow> timestamp option \<Rightarrow> bool" where
  "dateAfter now None = (now > 0)"
| "dateAfter now (Some d) = (now > d)"

section \<open>Tendering service\<close>

record TenderResponse =
  tr_success :: bool
  tr_tender :: LoadTender
  tr_message :: string
  tr_nextActions :: "string list"

definition findTenderForResponse :: "string \<Rightarrow> string \<Rightarrow> store \<Rightarrow> error + LoadTender" where
  "findTenderForResponse tenderId carrierId st =
     (case find (\<lambda>t. lt_id t = tenderId \<and> lt_carrierId t = carrierId) (tenders st) of
        None \<Rightarrow> Inl (NotFoundException ''Tender not found'')
      | Some tender \<Rightarrow> Inr tender)"

text \<open>
  The partial entities the service passes to \<^verbatim>\<open>manager.update\<close>, each as the
  function that sets its columns on a row \<open>t\<close>. \<open>tender\<close> is the entity the
  operation read before the update; the new audit trail is built from that entity's
  trail.
\<close>

definition accepted_partial :: "LoadTender \<Rightarrow> User \<Rightarrow> timestamp \<Rightarrow> LoadTender \<Rightarrow> LoadTender" where
  "accepted_partial tender user now t =
     t\<lparr>lt_status := T_ACCEPTED,
       lt_responseDate := Some now,
       lt_acceptedDate := Some now,
       lt_acceptedById := Some (u_id user),
       lt_carrierResponse := Some \<lparr>cr_action = ''ACCEPTED'',
          cr_timestamp = now, cr_userId = u_id user, cr_reason = None\<rparr>,
       lt_auditTrail := Some (orEmpty (lt_auditTrail tender) @
          [\<lparr>ae_action = ''ACCEPTED'', ae_timestamp = now,
            ae_userId = Some (u_id user),
            ae_notes = Some ''Tender accepted by carrier''\<rparr>])\<rparr>"

definition booked_partial :: "LoadTender \<Rightarrow> User \<Rightarrow> Shipment \<Rightarrow> Shipment" where
  "booked_partial tender user s =
     s\<lparr>sh_status := S_BOOKED,
       sh_carrierId := Some (lt_carrierId tender),
       sh_updatedById := Some (u_id user)\<rparr>"

definition autoCancelled_partial :: "timestamp \<Rightarrow> LoadTender \<Rightarrow> LoadTender" where
  "autoCancelled_partial now t =
     t\<lparr>lt_status := T_CANCELLED,
       lt_cancelledDate := Some now,
       lt_cancellationReason := Some ''Another tender was accepted for this shipment'',
       lt_auditTrail := Some [\<lparr>ae_action = ''AUTO_CANCELLED'', ae_timestamp = now,
          ae_userId = None,
          ae_notes = Some ''Cancelled due to another tender being accepted''\<rparr>]\<rparr>"

text \<open>\<^verbatim>\<open>reason || 'No reason provided'\<close>: an absent or empty reason is falsy.\<close>

fun reasonOrDefault :: "string option \<Rightarrow> string" where
  "reasonOrDefault None = ''No reason provided''"
| "reasonOrDefault (Some r) = (if r = [] then ''No reason provided'' else r)"

definition rejected_partial ::
  "LoadTender \<Rightarrow> string option \<Rightarrow> User \<Rightarrow> timestamp \<Rightarrow> LoadTender \<Rightarrow> LoadTender" where
  "rejected_partial tender reason user now t =
     t\<lparr>lt_status := T_REJECTED,
       lt_responseDate := Some now,
       lt_rejectedDate := Some now,
       lt_rejectedById := Some (u_id user),
       lt_responseNotes := reason,
       lt_carrierResponse := Some \<lparr>cr_action = ''REJECTED'',
          cr_timestamp = now, cr_userId = u_id user, cr_reason = reason\<rparr>,
       lt_auditTrail := Some (orEmpty (lt_auditTrail tender) @
          [\<lparr>ae_action = ''REJECTED'', ae_timestamp = now,
            ae_userId = Some (u_id user),
            ae_notes = Some (reasonOrDefault reason)\<rparr>])\<rparr>"

definition cancelled_partial ::
  "LoadTender \<Rightarrow> string \<Rightarrow> User \<Rightarrow> timestamp \<Rightarrow> LoadTender \<Rightarrow> LoadTender" where
  "cancelled_partial tender reason user now t =
     t\<lparr>lt_status := T_CANCELLED,
       lt_cancelledDate := Some now,
       lt_cancelledById := Some (u_id user),
       lt_cancellationReason := Some reason,
       lt_auditTrail := Some (orEmpty (lt_auditTrail tender) @
          [\<lparr>ae_action = ''CANCELLED'', ae_timestamp = now,
            ae_userId = Some (u_id user),
            ae_notes = Some reason\<rparr>])\<rparr>"

definition requoted_partial :: "User \<Rightarrow> Shipment \<Rightarrow> Shipment" where
  "requoted_partial user s =
     s\<lparr>sh_status := S_QUOTE,
       sh_carrierId := None,
       sh_updatedById := Some (u_id user)\<rparr>"

text \<open>
  \<^verbatim>\<open>rejectOtherTenders\<close>: one bulk update of every tender of the shipment that is
  still OFFERED. The accepted tender's id is a parameter the update does not use.
\<close>

definition rejectOtherTenders :: "string \<Rightarrow> string \<Rightarrow> timestamp \<Rightarrow> store \<Rightarrow> store" where
  "rejectOtherTenders shipmentId accepted_partialId now st =
     st\<lparr>tenders :=
       updateWhere (\<lambda>t. lt_shipmentId t = shipmentId \<and> lt_status t = T_OFFERED)
         (autoCancelled_partial now) (tenders st)\<rparr>"

text \<open>
  The public operations run in one transaction: they return the result together with
  the store after the call, and every exception rolls the transaction back, so the store
  returned with an error is the store the call started from. The notification
  placeholders only write to the log and are left out.
\<close>

definition acceptTender ::
  "string \<Rightarrow> string \<Rightarrow> User \<Rightarrow> timestamp \<Rightarrow> store \<Rightarrow> (error + TenderResponse) \<times> store" where
  "acceptTender tenderId carrierId user now st =
     (case findTenderForResponse tenderId carrierId st of
        Inl e \<Rightarrow> (Inl e, st)
      | Inr tender \<Rightarrow>
          if lt_status tender \<noteq> T_OFFERED then
            (Inl (BadRequestException ''Tender cannot be accepted in current status''), st)
          else if dateAfter now (lt_offerExpiryDate tender) then
            (Inl (BadRequestException ''Tender has expired''), st)
          else
            let st1 = st\<lparr>tenders :=
                  updateWhere (\<lambda>t. lt_id t = tenderId)
                    (accepted_partial tender user now) (tenders st)\<rparr>;
                st2 = st1\<lparr>shipments :=
                  updateWhere (\<lambda>s. sh_id s = lt_shipmentId tender)
                    (booked_partial tender user) (shipments st1)\<rparr>;
                st3 = rejectOtherTenders (lt_shipmentId tender) tenderId now st2
            in (Inr \<lparr>tr_success = True,
                     tr_tender = tender\<lparr>lt_status := T_ACCEPTED\<rparr>,
                     tr_message = ''Tender accepted successfully'',
                     tr_nextActions = [''Shipment is now booked'',
                        ''Generate BOL and documents'', ''Schedule pickup'']\<rparr>, st3))"

definition rejectTender ::
  "string \<Rightarrow> string \<Rightarrow> string option \<Rightarrow> User \<Rightarrow> timestamp \<Rightarrow> store
     \<Rightarrow> (error + TenderResponse) \<times> store" where
  "rejectTender tenderId carrierId reason user now st =
     (case findTenderForResponse tenderId carrierId st of
        Inl e \<Rightarrow> (Inl e, st)
      | Inr tender \<Rightarrow>
          if lt_status tender \<noteq> T_OFFERED then
            (Inl (BadRequestException ''Tender cannot be rejected in current status''), st)
          else
            let st1 = st\<lparr>tenders :=
                  updateWhere (\<lambda>t. lt_id t = tenderId)
                    (rejected_partial tender reason user now) (tenders st)\<rparr>
            in (Inr \<lparr>tr_success = True,
                     tr_tender = tender\<lparr>lt_status := T_REJECTED\<rparr>,
                     tr_message = ''Tender rejected'',
                     tr_nextActions = []\<rparr>, st1))"

definition cancelTender ::
  "string \<Rightarrow> string \<Rightarrow> User \<Rightarrow> timestamp \<Rightarrow> store \<Rightarrow> (error + TenderResponse) \<times> store" where
  "cancelTender tenderId reason user now st =
     (case find (\<lambda>t. lt_id t = tenderId) (tenders st) of
        None \<Rightarrow> (Inl (NotFoundException ''Tender not found''), st)
      | Some tender \<Rightarrow>
          if lt_status tender = T_CANCELLED \<or> lt_status tender = T_EXPIRED then
            (Inl (BadRequestException ''Tender is already cancelled or expired''), st)
          else
            let st1 = (if lt_status tender = T_ACCEPTED then
                  st\<lparr>shipments :=
                    updateWhere (\<lambda>s. sh_id s = lt_shipmentId tender)
                      (requoted_partial user) (shipments st)\<rparr>
                  else st);
                st2 = st1\<lparr>tenders :=
                  updateWhere (\<lambda>t. lt_id t = tenderId)
                    (cancelled_partial tender reason user now) (tenders st1)\<rparr>
            in (Inr \<lparr>tr_success = True,
                     tr_tender = tender\<lparr>lt_status := T_CANCELLED\<rparr>,
                     tr_message = ''Tender cancelled successfully'',
                     tr_nextActions = []\<rparr>, st2))"

section \<open>Dispatch service\<close>

record DispatchRequest =
  rq_shipmentId :: string
  rq_driverId :: string
  rq_message :: "string option"
  rq_scheduledFor :: "timestamp option"
  rq_dispatchType :: "DispatchType option"

text \<open>
  The result of \<^verbatim>\<open>assignDriver\<close>. The SMS result and the \<^verbatim>\<open>nextActions\<close>
  texts (one of them a formatted date) come from the SMS provider and the date library
  and are not part of the record.
\<close>

record DispatchResponse =
  dp_success :: bool
  dp_assignment :: DispatchAssignment
  dp_message :: string

record DriverResponseResult =
  pr_success :: bool
  pr_message :: string
  pr_nextActions :: "string list"

text \<open>
  \<^verbatim>\<open>validateShipmentForDispatch\<close>: the shipment of the caller's tenant, loaded with
  its tenders (the tender rows whose \<open>shipmentId\<close> is the shipment's id).
\<close>

definition validateShipmentForDispatch :: "string \<Rightarrow> User \<Rightarrow> store \<Rightarrow> error + Shipment" where
  "validateShipmentForDispatch shipmentId user st =
     (case find (\<lambda>s. sh_id s = shipmentId \<and> sh_tenantId s = u_companyId user) (shipments st) of
        None \<Rightarrow> Inl (NotFoundException ''Shipment not found'')
      | Some shipment \<Rightarrow>
          if sh_status shipment \<noteq> S_BOOKED \<and> sh_status shipment \<noteq> S_TENDERED then
            Inl (BadRequestException
              (''Shipment must be BOOKED or TENDERED to dispatch. Current status: '' @
                 ShipmentStatus_value (sh_status shipment)))
          else
            (case find (\<lambda>t. lt_status t = T_ACCEPTED)
                    (filter (\<lambda>t. lt_shipmentId t = sh_id shipment) (tenders st)) of
               None \<Rightarrow> Inl (BadRequestException ''No accepted tender found for this shipment'')
             | Some acceptedTender \<Rightarrow> Inr shipment))"

definition validateDriverForAssignment :: "string \<Rightarrow> User \<Rightarrow> store \<Rightarrow> error + Driver" where
  "validateDriverForAssignment driverId user st =
     (case find (\<lambda>d. dr_id d = driverId) (drivers st) of
        None \<Rightarrow> Inl (NotFoundException ''Driver not found'')
      | Some driver \<Rightarrow>
          if \<not> dr_isActive driver then Inl (BadRequestException ''Driver is not active'')
          else Inr driver)"

text \<open>
  \<^verbatim>\<open>s < new Date()\<close> for a string \<open>s\<close>: both operands are converted to
  numbers, and a comparison with NaN is false. \<open>stringToNumber\<close> is the conversion of
  the string, \<open>None\<close> standing for NaN: a string of decimal digits (the empty string
  included) is the number it writes, and a string with any other character is NaN.
  That is the conversion of every \<^verbatim>\<open>YYYY-MM-DD\<close> string, whose hyphens make it
  NaN; signs, fractions, exponents and radix prefixes do not occur in a date column.
\<close>

definition isDigit :: "char \<Rightarrow> bool" where
  "isDigit c = (48 \<le> (of_char c :: nat) \<and> (of_char c :: nat) \<le> 57)"

definition stringToNumber :: "string \<Rightarrow> int option" where
  "stringToNumber s =
     (if list_all isDigit s
      then Some (int (foldl (\<lambda>n c. 10 * n + (of_char c - 48)) 0 s))
      else None)"

definition stringLessThanDate :: "string \<Rightarrow> timestamp \<Rightarrow> bool" where
  "stringLessThanDate s now =
     (case stringToNumber s of None \<Rightarrow> False | Some n \<Rightarrow> n < now)"

text \<open>
  \<^verbatim>\<open>isDriverAvailable\<close>. A null or empty license date is falsy and skips the
  license check; otherwise the string itself is compared with the current date. The
  medical certificate's date goes through \<^verbatim>\<open>new Date\<close> before it is compared;
  \<^verbatim>\<open>medicalCertificate?.expirationDate\<close> is falsy when the certificate or its
  date is missing.
\<close>

definition isDriverAvailable :: "Driver \<Rightarrow> timestamp \<Rightarrow> bool" where
  "isDriverAvailable driver now =
     (if dr_status driver \<noteq> DR_ACTIVE \<and> dr_status driver \<noteq> DR_OFF_DUTY then False
      else if (case dr_licenseExpirationDate driver of
                 None \<Rightarrow> False
               | Some d \<Rightarrow> dc_text d \<noteq> [] \<and> stringLessThanDate (dc_text d) now)
        then False
      else if (case dr_medicalCertificate driver of
                 None \<Rightarrow> False
               | Some cert \<Rightarrow>
                   (case mc_expirationDate cert of None \<Rightarrow> False | Some d \<Rightarrow> d < now))
        then False
      else True)"

fun dispatchTypeOrDefault :: "DispatchType option \<Rightarrow> DispatchType" where
  "dispatchTypeOrDefault None = PRIMARY"
| "dispatchTypeOrDefault (Some t) = t"

text \<open>
  The entity \<^verbatim>\<open>assignDriver\<close> creates and the partial entities the dispatch
  service passes to \<^verbatim>\<open>manager.update\<close>, each as the function that sets its
  columns on a row. \<open>driver\<close> and \<open>assignment\<close> are the entities the operation
  read before the update.
\<close>

definition createdAssignment ::
  "DispatchRequest \<Rightarrow> User \<Rightarrow> Driver \<Rightarrow> string \<Rightarrow> string \<Rightarrow> timestamp \<Rightarrow> DispatchAssignment" where
  "createdAssignment dispatchRequest user driver newId dispatchMessage now =
     \<lparr>da_id = newId,
      da_tenantId = u_companyId user,
      da_shipmentId = rq_shipmentId dispatchRequest,
      da_driverId = rq_driverId dispatchRequest,
      da_status = D_DISPATCHED,
      da_dispatchType = dispatchTypeOrDefault (rq_dispatchType dispatchRequest),
      da_sentAt = Some now,
      da_confirmedAt = None,
      da_rejectedAt = None,
      da_dispatchMessage = Some dispatchMessage,
      da_dispatchDetails = Some \<lparr>dd_scheduledFor = rq_scheduledFor dispatchRequest,
         dd_dispatcherName = u_firstName user @ '' '' @ u_lastName user,
         dd_dispatcherId = u_id user\<rparr>,
      da_responseDetails = None,
      da_communicationLog = Some [\<lparr>ce_type = ''SMS_SENT'', ce_timestamp = now,
         ce_recipient = Some (dr_phoneNumber driver), ce_response = None,
         ce_processedBy = None, ce_status = ''pending''\<rparr>]\<rparr>"

text \<open>
  The shipment update of \<^verbatim>\<open>assignDriver\<close> passes
  \<^verbatim>\<open>status: ShipmentStatus.DISPATCHED\<close>. The enum has no such member, so the
  property is \<^verbatim>\<open>undefined\<close> and the update leaves the status column as it is.
\<close>

definition dispatchedShipment_partial :: "string \<Rightarrow> User \<Rightarrow> Shipment \<Rightarrow> Shipment" where
  "dispatchedShipment_partial driverId user s =
     s\<lparr>sh_assignedDriverId := Some driverId,
       sh_updatedById := Some (u_id user)\<rparr>"

definition dispatchedDriver_partial :: "Driver \<Rightarrow> timestamp \<Rightarrow> Driver \<Rightarrow> Driver" where
  "dispatchedDriver_partial driver now d =
     d\<lparr>dr_status := DR_ON_LOAD,
       dr_lastDispatchDate := Some now,
       dr_completedLoads := dr_completedLoads driver + 1\<rparr>"

definition confirmedDriver_partial :: "Driver \<Rightarrow> Driver \<Rightarrow> Driver" where
  "confirmedDriver_partial driver d =
     d\<lparr>dr_status := DR_ON_LOAD,
       dr_completedLoads := dr_completedLoads driver + 1\<rparr>"

definition confirmedShipment_partial :: "User \<Rightarrow> Shipment \<Rightarrow> Shipment" where
  "confirmedShipment_partial user s =
     s\<lparr>sh_status := S_BOOKED,
       sh_updatedById := Some (u_id user)\<rparr>"

definition rejectedDriver_partial :: "Driver \<Rightarrow> Driver" where
  "rejectedDriver_partial d = d\<lparr>dr_status := DR_ACTIVE\<rparr>"

definition rejectedShipment_partial :: "User \<Rightarrow> Shipment \<Rightarrow> Shipment" where
  "rejectedShipment_partial user s =
     s\<lparr>sh_status := S_TENDERED,
       sh_assignedDriverId := None,
       sh_updatedById := Some (u_id user)\<rparr>"

definition responded_partial ::
  "DispatchAssignment \<Rightarrow> string \<Rightarrow> User \<Rightarrow> timestamp \<Rightarrow> DispatchAssignment
     \<Rightarrow> DispatchAssignment" where
  "responded_partial assignment response user now a =
     a\<lparr>da_status := (if response = ''1'' then D_CONFIRMED else D_REJECTED),
       da_confirmedAt := (if response = ''1'' then Some now else None),
       da_rejectedAt := (if response = ''2'' then Some now else None),
       da_responseDetails := Some \<lparr>rd_responseType = response,
          rd_timestamp = now, rd_processedBy = u_id user\<rparr>,
       da_communicationLog :=
         Some (orEmpty (da_communicationLog assignment) @
           [\<lparr>ce_type = ''SMS_RESPONSE'', ce_timestamp = now,
             ce_recipient = None, ce_response = Some response,
             ce_processedBy = Some (u_id user),
             ce_status = ''processed''\<rparr>])\<rparr>"

text \<open>
  \<^verbatim>\<open>assignDriver\<close>. Two values come from outside the service and are parameters:
  \<open>newId\<close>, the uuid the database generates when the assignment is saved, and
  \<open>dispatchMessage\<close>, the text \<^verbatim>\<open>buildDispatchMessage\<close> formats from the shipment
  with the locale library. The \<open>status\<close> criterion of the duplicate check lists
  DISPATCHED and CONFIRMED. The SMS is sent after the commit; the update of the SMS log
  that follows swallows its own errors and is left out.
\<close>

definition assignDriver ::
  "DispatchRequest \<Rightarrow> User \<Rightarrow> string \<Rightarrow> string \<Rightarrow> timestamp \<Rightarrow> store
     \<Rightarrow> (error + DispatchResponse) \<times> store" where
  "assignDriver dispatchRequest user newId dispatchMessage now st =
     (let shipmentId = rq_shipmentId dispatchRequest;
          driverId = rq_driverId dispatchRequest
      in case validateShipmentForDispatch shipmentId user st of
           Inl e \<Rightarrow> (Inl e, st)
         | Inr shipment \<Rightarrow>
        (case validateDriverForAssignment driverId user st of
           Inl e \<Rightarrow> (Inl e, st)
         | Inr driver \<Rightarrow>
          if \<not> isDriverAvailable driver now then
            (Inl (BadRequestException (''Driver '' @ dr_firstName driver @ '' '' @
                dr_lastName driver @ '' is not available for dispatch'')), st)
          else
            (case find (\<lambda>a. da_shipmentId a = shipmentId \<and> da_driverId a = driverId \<and>
                         da_status a \<in> set [D_DISPATCHED, D_CONFIRMED]) (assignments st) of
               Some existingAssignment \<Rightarrow>
                 (Inl (BadRequestException ''Driver is already assigned to this shipment''), st)
             | None \<Rightarrow>
                 let savedAssignment =
                       createdAssignment dispatchRequest user driver newId dispatchMessage now;
                     st1 = st\<lparr>assignments := assignments st @ [savedAssignment]\<rparr>;
                     st2 = st1\<lparr>shipments :=
                       updateWhere (\<lambda>s. sh_id s = shipmentId)
                         (dispatchedShipment_partial driverId user) (shipments st1)\<rparr>;
                     st3 = st2\<lparr>drivers :=
                       updateWhere (\<lambda>d. dr_id d = driverId)
                         (dispatchedDriver_partial driver now) (drivers st2)\<rparr>
                 in (Inr \<lparr>dp_success = True,
                          dp_assignment = savedAssignment,
                          dp_message = ''Dispatch sent to '' @ dr_firstName driver @ '' '' @
                             dr_lastName driver\<rparr>, st3))))"

text \<open>
  \<^verbatim>\<open>processDriverResponse\<close>. The assignment is loaded with its \<open>driver\<close> relation:
  the driver row of \<open>assignment.driverId\<close>, null when there is none, in which case
  reading \<^verbatim>\<open>assignment.driver.firstName\<close> raises a TypeError. Both branches of
  the source read the driver's name before they write, and the last branch rejects any
  other response code; here the response code is tested first and the driver is read
  once, which gives the same result in every case.
\<close>

definition processDriverResponse ::
  "string \<Rightarrow> string \<Rightarrow> string \<Rightarrow> User \<Rightarrow> timestamp \<Rightarrow> store
     \<Rightarrow> (error + DriverResponseResult) \<times> store" where
  "processDriverResponse driverId response assignmentId user now st =
     (case find (\<lambda>a. da_id a = assignmentId \<and> da_driverId a = driverId) (assignments st) of
        None \<Rightarrow> (Inl (NotFoundException ''Dispatch assignment not found''), st)
      | Some assignment \<Rightarrow>
          if da_status assignment \<noteq> D_DISPATCHED then
            (Inl (BadRequestException
               (''Assignment is not in DISPATCHED status. Current status: '' @
                  DispatchStatus_value (da_status assignment))), st)
          else if response \<noteq> ''1'' \<and> response \<noteq> ''2'' then
            (Inl (BadRequestException ''Invalid response code''), st)
          else
            (case find (\<lambda>d. dr_id d = da_driverId assignment) (drivers st) of
               None \<Rightarrow>
                 (Inl (TypeError ''Cannot read properties of null (reading 'firstName')''), st)
             | Some driver \<Rightarrow>
                 let message = ''Driver '' @ dr_firstName driver @ '' '' @ dr_lastName driver @
                       (if response = ''1'' then '' confirmed dispatch''
                        else '' rejected dispatch'');
                     nextActions = (if response = ''1'' then
                         [''Generate BOL and pickup documents'',
                          ''Update shipment status to IN_TRANSIT when picked up'',
                          ''Monitor driver location for real-time tracking'']
                       else
                         [''Find alternative driver for this shipment'',
                          ''Contact driver to understand rejection reason'',
                          ''Update dispatch preferences for future loads'']);
                     st1 = (if response = ''1'' then
                         st\<lparr>drivers :=
                           updateWhere (\<lambda>d. dr_id d = driverId)
                             (confirmedDriver_partial driver) (drivers st),
                           shipments :=
                           updateWhere (\<lambda>s. sh_id s = da_shipmentId assignment)
                             (confirmedShipment_partial user) (shipments st)\<rparr>
                       else
                         st\<lparr>drivers :=
                           updateWhere (\<lambda>d. dr_id d = driverId)
                             rejectedDriver_partial (drivers st),
                           shipments :=
                           updateWhere (\<lambda>s. sh_id s = da_shipmentId assignment)
                             (rejectedShipment_partial user) (shipments st)\<rparr>);
                     st2 = st1\<lparr>assignments :=
                       updateWhere (\<lambda>a. da_id a = assignmentId)
                         (responded_partial assignment response user now) (assignments st1)\<rparr>
                 in (Inr \<lparr>pr_success = True, pr_message = message,
                          pr_nextActions = nextActions\<rparr>, st2)))"

section \<open>Inbound SMS webhook\<close>

text \<open>
  A JavaScript string is modelled by the list of its characters; a \<open>char\<close> is a code
  point below 256 (Latin-1), which covers every keyword the parser looks for.
  \<^verbatim>\<open>trim\<close> removes the white space of that range at both ends,
  \<^verbatim>\<open>toLowerCase\<close> maps the upper-case letters of that range, and
  \<^verbatim>\<open>includes\<close> (here \<open>includes_str\<close>) tests for a contiguous occurrence.
\<close>

definition isWhiteSpace :: "char \<Rightarrow> bool" where
  "isWhiteSpace c = (of_char c \<in> set [9, 10, 11, 12, 13, 32, 160 :: nat])"

definition trim :: "string \<Rightarrow> string" where
  "trim s = rev (dropWhile isWhiteSpace (rev (dropWhile isWhiteSpace s)))"

definition toLowerChar :: "char \<Rightarrow> char" where
  "toLowerChar c =
     (let n = (of_char c :: nat)
      in if (65 \<le> n \<and> n \<le> 90) \<or> (192 \<le> n \<and> n \<le> 222 \<and> n \<noteq> 215)
         then char_of (n + 32) else c)"

definition toLowerCase :: "string \<Rightarrow> string" where
  "toLowerCase s = map toLowerChar s"

definition includes_str :: "string \<Rightarrow> string \<Rightarrow> bool" where
  "includes_str s pat = sublist pat s"

record SmsWebhookPayload =
  p_From :: string
  p_To :: string
  p_Body :: string
  p_MessageSid :: "string option"

record SmsWebhookResponse =
  wr_success :: bool
  wr_message :: string
  wr_processedAt :: timestamp
  wr_driverId :: "string option"
  wr_assignmentId :: "string option"
  wr_nextAction :: "string option"

text \<open>The object \<^verbatim>\<open>parseSmsResponse\<close> returns; each property may be absent.\<close>

record ParsedSms =
  ps_response :: "string option"
  ps_driverId :: "string option"
  ps_assignmentId :: "string option"

text \<open>
  The two pattern lists of \<^verbatim>\<open>parseSmsResponse\<close>. The body is already lower-case
  when they are tested, so an \<^verbatim>\<open>/i\<close> pattern is a substring test for its
  lower-case text; the anchored patterns \<^verbatim>\<open>/^1$/\<close> and \<^verbatim>\<open>/^2$/\<close>
  match the one-character bodies.
\<close>

datatype pattern = Contains string | Exactly string

fun pattern_test :: "pattern \<Rightarrow> string \<Rightarrow> bool" where
  "pattern_test (Contains w) body = includes_str body w"
| "pattern_test (Exactly w) body = (body = w)"

definition confirmPatterns :: "pattern list" where
  "confirmPatterns = [Contains ''confirm'', Contains ''accept'', Contains ''yes'',
     Contains ''ok'', Exactly ''1'', Contains ''got it'', Contains ''on my way'']"

definition rejectPatterns :: "pattern list" where
  "rejectPatterns = [Contains ''reject'', Contains ''decline'', Contains ''no'',
     Contains [CHR ''c'', CHR ''a'', CHR ''n'', CHR 0x27, CHR ''t''], Contains ''cannot'',
     Exactly ''2'', Contains ''not available'', Contains ''busy'']"

definition parseSmsResponse :: "SmsWebhookPayload \<Rightarrow> ParsedSms" where
  "parseSmsResponse payload =
     (let body = toLowerCase (trim (p_Body payload))
      in if body = ''1'' \<or> includes_str (toLowerCase body) ''confirm'' then
           \<lparr>ps_response = Some ''1'', ps_driverId = None, ps_assignmentId = None\<rparr>
         else if body = ''2'' \<or> includes_str (toLowerCase body) ''reject'' then
           \<lparr>ps_response = Some ''2'', ps_driverId = None, ps_assignmentId = None\<rparr>
         else if list_ex (\<lambda>pattern. pattern_test pattern body) confirmPatterns then
           \<lparr>ps_response = Some ''1'', ps_driverId = None, ps_assignmentId = None\<rparr>
         else if list_ex (\<lambda>pattern. pattern_test pattern body) rejectPatterns then
           \<lparr>ps_response = Some ''2'', ps_driverId = None, ps_assignmentId = None\<rparr>
         else \<lparr>ps_response = None, ps_driverId = None, ps_assignmentId = None\<rparr>)"

definition getMockUserForWebhook :: User where
  "getMockUserForWebhook = \<lparr>u_id = ''webhook-processor'',
     u_email = ''system@tms-platform.com'', u_firstName = ''System'',
     u_lastName = ''Processor'', u_companyId = ''system-tenant''\<rparr>"

text \<open>\<^verbatim>\<open>!x\<close> on an optional string: absent and empty are both falsy.\<close>

fun falsy :: "string option \<Rightarrow> bool" where
  "falsy None = True"
| "falsy (Some s) = (s = [])"

fun firstOf :: "'a list \<Rightarrow> 'a option" where
  "firstOf [] = None"
| "firstOf (x # xs) = Some x"

text \<open>
  \<^verbatim>\<open>receiveSmsWebhook\<close>: the \<^verbatim>\<open>try\<close> block and its \<^verbatim>\<open>catch\<close>,
  which turns every exception of \<^verbatim>\<open>processDriverResponse\<close> into a response with
  \<open>success = false\<close>. The handler never raises.
\<close>

definition receiveSmsWebhook ::
  "SmsWebhookPayload \<Rightarrow> timestamp \<Rightarrow> store \<Rightarrow> SmsWebhookResponse \<times> store" where
  "receiveSmsWebhook payload processedAt st =
     (let parsed = parseSmsResponse payload
      in if falsy (ps_response parsed) then
        (\<lparr>wr_success = False, wr_message = ''Unrecognized SMS response'',
          wr_processedAt = processedAt, wr_driverId = None, wr_assignmentId = None,
          wr_nextAction = None\<rparr>, st)
      else if falsy (ps_driverId parsed) \<or> falsy (ps_assignmentId parsed) then
        (\<lparr>wr_success = False, wr_message = ''Could not process SMS response - missing IDs'',
          wr_processedAt = processedAt, wr_driverId = None, wr_assignmentId = None,
          wr_nextAction = None\<rparr>, st)
      else
        (case processDriverResponse (the (ps_driverId parsed)) (the (ps_response parsed))
                (the (ps_assignmentId parsed)) getMockUserForWebhook processedAt st of
           (Inr result, st') \<Rightarrow>
             (\<lparr>wr_success = pr_success result, wr_message = pr_message result,
               wr_processedAt = processedAt, wr_driverId = ps_driverId parsed,
               wr_assignmentId = ps_assignmentId parsed,
               wr_nextAction = firstOf (pr_nextActions result)\<rparr>, st')
         | (Inl e, st') \<Rightarrow>
             (\<lparr>wr_success = False,
               wr_message = ''Failed to process webhook: '' @ error_message e,
               wr_processedAt = processedAt, wr_driverId = None, wr_assignmentId = None,
               wr_nextAction = None\<rparr>, st')))"

section \<open>Example stores\<close>

text \<open>Concrete rows and stores on which the operations are evaluated below.\<close>

definition newTender ::
  "string \<Rightarrow> string \<Rightarrow> string \<Rightarrow> TenderStatus \<Rightarrow> timestamp \<Rightarrow> AuditEntry list \<Rightarrow> LoadTender" where
  "newTender i shipmentId carrierId status expiry trail =
     \<lparr>lt_id = i, lt_shipmentId = shipmentId, lt_carrierId = carrierId, lt_status = status,
      lt_offerExpiryDate = Some expiry, lt_responseDate = None, lt_responseNotes = None,
      lt_carrierResponse = None, lt_acceptedDate = None, lt_acceptedById = None,
      lt_rejectedDate = None, lt_rejectedById = None, lt_cancelledDate = None,
      lt_cancelledById = None, lt_cancellationReason = None, lt_auditTrail = Some trail\<rparr>"

definition offeredEntry :: "string \<Rightarrow> AuditEntry" where
  "offeredEntry carrierName =
     \<lparr>ae_action = ''OFFERED'', ae_timestamp = 100, ae_userId = Some ''u1'',
      ae_notes = Some (''Load tendered to '' @ carrierName)\<rparr>"

definition broker :: User where
  "broker = \<lparr>u_id = ''u1'', u_email = ''broker@example.com'', u_firstName = ''Ann'',
     u_lastName = ''Lee'', u_companyId = ''tenant1''\<rparr>"

definition shipmentS1 :: "ShipmentStatus \<Rightarrow> Shipment" where
  "shipmentS1 status = \<lparr>sh_id = ''S1'', sh_tenantId = ''tenant1'', sh_status = status,
     sh_carrierId = Some ''C1'', sh_assignedDriverId = None, sh_updatedById = None\<rparr>"

definition driverD1 :: Driver where
  "driverD1 = \<lparr>dr_id = ''D1'', dr_firstName = ''Sam'', dr_lastName = ''Roe'',
     dr_phoneNumber = ''+15550001'',
     dr_licenseExpirationDate = Some \<lparr>dc_text = ''2030-01-01'', dc_instant = 1893456000000\<rparr>,
     dr_status = DR_ACTIVE, dr_medicalCertificate = None, dr_lastDispatchDate = None,
     dr_completedLoads = 7, dr_isActive = True\<rparr>"

text \<open>
  Driver D2 is active and on ACTIVE status; the license expired on 1 January 2020
  (1577836800000 ms).
\<close>

definition driverD2 :: Driver where
  "driverD2 = \<lparr>dr_id = ''D2'', dr_firstName = ''Kim'', dr_lastName = ''Fox'',
     dr_phoneNumber = ''+15550002'',
     dr_licenseExpirationDate = Some \<lparr>dc_text = ''2020-01-01'', dc_instant = 1577836800000\<rparr>,
     dr_status = DR_ACTIVE, dr_medicalCertificate = None, dr_lastDispatchDate = None,
     dr_completedLoads = 3, dr_isActive = True\<rparr>"

definition assignmentA1 :: "DispatchStatus \<Rightarrow> DispatchAssignment" where
  "assignmentA1 status = \<lparr>da_id = ''A1'', da_tenantId = ''tenant1'', da_shipmentId = ''S1'',
     da_driverId = ''D1'', da_status = status, da_dispatchType = PRIMARY,
     da_sentAt = Some 200, da_confirmedAt = None, da_rejectedAt = None,
     da_dispatchMessage = Some ''Dispatch Alert'', da_dispatchDetails = None,
     da_responseDetails = None, da_communicationLog = None\<rparr>"

text \<open>Two carriers hold an OFFERED tender for shipment S1; both expire at 1000.\<close>

definition twoOffers :: store where
  "twoOffers = \<lparr>tenders = [newTender ''T1'' ''S1'' ''C1'' T_OFFERED 1000 [offeredEntry ''C1''],
                            newTender ''T2'' ''S1'' ''C2'' T_OFFERED 1000 [offeredEntry ''C2'']],
     shipments = [shipmentS1 S_TENDERED], drivers = [], assignments = []\<rparr>"

text \<open>
  T1 is already ACCEPTED when T2 is offered for the same shipment; T3 was cancelled.
  The driver's assignment A1 is already CONFIRMED.
\<close>

definition afterAccept :: store where
  "afterAccept = \<lparr>tenders = [newTender ''T1'' ''S1'' ''C1'' T_ACCEPTED 1000 [offeredEntry ''C1''],
                              newTender ''T2'' ''S1'' ''C2'' T_OFFERED 1000 [offeredEntry ''C2''],
                              newTender ''T3'' ''S1'' ''C3'' T_CANCELLED 1000 [offeredEntry ''C3'']],
     shipments = [shipmentS1 S_BOOKED], drivers = [driverD1],
     assignments = [assignmentA1 D_CONFIRMED]\<rparr>"

text \<open>
  Shipment S1, back at TENDERED after an earlier driver declined, has carrier C1's
  accepted tender; driver D1 holds the DISPATCHED assignment A1.
\<close>

definition dispatched :: store where
  "dispatched = \<lparr>tenders = [newTender ''T1'' ''S1'' ''C1'' T_ACCEPTED 1000 [offeredEntry ''C1'']],
     shipments = [shipmentS1 S_TENDERED\<lparr>sh_assignedDriverId := Some ''D1''\<rparr>],
     drivers = [driverD1\<lparr>dr_status := DR_ON_LOAD\<rparr>],
     assignments = [assignmentA1 D_DISPATCHED]\<rparr>"

text \<open>Shipment S1 is booked with carrier C1 and no driver has been assigned yet.\<close>

definition booked :: store where
  "booked = \<lparr>tenders = [newTender ''T1'' ''S1'' ''C1'' T_ACCEPTED 1000 [offeredEntry ''C1'']],
     shipments = [shipmentS1 S_BOOKED], drivers = [driverD1], assignments = []\<rparr>"

text \<open>The same shipment, with driver D2 in the drivers table.\<close>

definition bookedD2 :: store where
  "bookedD2 = \<lparr>tenders = [newTender ''T1'' ''S1'' ''C1'' T_ACCEPTED 1000 [offeredEntry ''C1'']],
     shipments = [shipmentS1 S_BOOKED], drivers = [driverD2], assignments = []\<rparr>"

definition dispatchS1D2 :: DispatchRequest where
  "dispatchS1D2 = \<lparr>rq_shipmentId = ''S1'', rq_driverId = ''D2'', rq_message = None,
     rq_scheduledFor = None, rq_dispatchType = None\<rparr>"

definition dispatchS1D1 :: DispatchRequest where
  "dispatchS1D1 = \<lparr>rq_shipmentId = ''S1'', rq_driverId = ''D1'', rq_message = None,
     rq_scheduledFor = None, rq_dispatchType = None\<rparr>"

definition smsFromD1 :: "string \<Rightarrow> SmsWebhookPayload" where
  "smsFromD1 body = \<lparr>p_From = ''+15550001'', p_To = ''+15559999'', p_Body = body,
     p_MessageSid = Some ''SM1''\<rparr>"

section \<open>Facts about the repository operations\<close>

lemmas example_defs = newTender_def offeredEntry_def broker_def shipmentS1_def driverD1_def
  assignmentA1_def twoOffers_def afterAccept_def dispatched_def booked_def dispatchS1D1_def
  smsFromD1_def driverD2_def bookedD2_def dispatchS1D2_def

lemma length_updateWhere [simp]: "length (updateWhere c f rows) = length rows"
  by (simp add: updateWhere_def)

lemma set_updateWhere:
  "set (updateWhere c f rows) = (\<lambda>r. if c r then f r else r) ` set rows"
  by (simp add: updateWhere_def)

lemma updateWhere_key:
  assumes "\<And>r. k (f r) = k r" and "\<And>r. P (f r)"
  shows "\<forall>r \<in> set (updateWhere (\<lambda>r. k r = i) f rows). k r = i \<longrightarrow> P r"
  using assms by (auto simp: set_updateWhere)

lemma acceptTender_not_offered:
  assumes "find (\<lambda>t. lt_id t = tid \<and> lt_carrierId t = cid) (tenders st) = Some t"
    and "lt_status t \<noteq> T_OFFERED"
  shows "acceptTender tid cid user now st =
          (Inl (BadRequestException ''Tender cannot be accepted in current status''), st)"
  using assms by (simp add: acceptTender_def findTenderForResponse_def)

lemma rejectTender_not_offered:
  assumes "find (\<lambda>t. lt_id t = tid \<and> lt_carrierId t = cid) (tenders st) = Some t"
    and "lt_status t \<noteq> T_OFFERED"
  shows "rejectTender tid cid reason user now st =
          (Inl (BadRequestException ''Tender cannot be rejected in current status''), st)"
  using assms by (simp add: rejectTender_def findTenderForResponse_def)

lemma cancelTender_cancelled_or_expired:
  assumes "find (\<lambda>t. lt_id t = tid) (tenders st) = Some t"
    and "lt_status t = T_CANCELLED \<or> lt_status t = T_EXPIRED"
  shows "cancelTender tid why user now st =
          (Inl (BadRequestException ''Tender is already cancelled or expired''), st)"
  using assms by (simp add: cancelTender_def)

lemma cancelTender_accepted:
  assumes "find (\<lambda>t. lt_id t = tid) (tenders st) = Some t" and "lt_status t = T_ACCEPTED"
  shows "\<not> isl (fst (cancelTender tid why user now st))"
    and "\<forall>r \<in> set (tenders (snd (cancelTender tid why user now st))).
           lt_id r = tid \<longrightarrow> lt_status r = T_CANCELLED"
    and "\<forall>s \<in> set (shipments (snd (cancelTender tid why user now st))).
           sh_id s = lt_shipmentId t \<longrightarrow> sh_status s = S_QUOTE"
proof -
  show "\<not> isl (fst (cancelTender tid why user now st))"
    using assms by (simp add: cancelTender_def Let_def)
  show "\<forall>r \<in> set (tenders (snd (cancelTender tid why user now st))).
           lt_id r = tid \<longrightarrow> lt_status r = T_CANCELLED"
    using assms by (simp add: cancelTender_def Let_def)
      (rule updateWhere_key, simp_all add: cancelled_partial_def)
  show "\<forall>s \<in> set (shipments (snd (cancelTender tid why user now st))).
           sh_id s = lt_shipmentId t \<longrightarrow> sh_status s = S_QUOTE"
    using assms by (simp add: cancelTender_def Let_def)
      (rule updateWhere_key, simp_all add: requoted_partial_def)
qed

lemma processDriverResponse_not_dispatched:
  assumes "find (\<lambda>a. da_id a = aid \<and> da_driverId a = did) (assignments st) = Some a"
    and "da_status a \<noteq> D_DISPATCHED"
  shows "processDriverResponse did response aid user now st =
          (Inl (BadRequestException
             (''Assignment is not in DISPATCHED status. Current status: '' @
                DispatchStatus_value (da_status a))), st)"
  using assms by (simp add: processDriverResponse_def)

section \<open>Terminal states\<close>

text \<open>
  C1 (as amended). An offer in a terminal state is not changed by \<open>acceptTender\<close>,
  \<open>rejectTender\<close> or \<open>processDriverResponse\<close>: each call fails and returns the store
  it was given. \<open>cancelTender\<close> does so for a tender that is CANCELLED or EXPIRED; an
  ACCEPTED tender it cancels, putting the shipment back to QUOTE.
\<close>

theorem terminal_offer_transitions_refused:
  "(find (\<lambda>t. lt_id t = tid \<and> lt_carrierId t = cid) (tenders st) = Some t \<and>
      lt_status t \<in> {T_ACCEPTED, T_REJECTED, T_EXPIRED, T_CANCELLED} \<longrightarrow>
        acceptTender tid cid user now st =
          (Inl (BadRequestException ''Tender cannot be accepted in current status''), st) \<and>
        rejectTender tid cid reason user now st =
          (Inl (BadRequestException ''Tender cannot be rejected in current status''), st)) \<and>
   (find (\<lambda>t. lt_id t = tid') (tenders st) = Some t' \<and>
      lt_status t' \<in> {T_EXPIRED, T_CANCELLED} \<longrightarrow>
        cancelTender tid' why user now st =
          (Inl (BadRequestException ''Tender is already cancelled or expired''), st)) \<and>
   (find (\<lambda>t. lt_id t = tid') (tenders st) = Some t' \<and> lt_status t' = T_ACCEPTED \<longrightarrow>
        \<not> isl (fst (cancelTender tid' why user now st)) \<and>
        (\<forall>r \<in> set (tenders (snd (cancelTender tid' why user now st))).
           lt_id r = tid' \<longrightarrow> lt_status r = T_CANCELLED) \<and>
        (\<forall>s \<in> set (shipments (snd (cancelTender tid' why user now st))).
           sh_id s = lt_shipmentId t' \<longrightarrow> sh_status s = S_QUOTE)) \<and>
   (find (\<lambda>a. da_id a = aid \<and> da_driverId a = did) (assignments st) = Some a \<and>
      da_status a \<in> {D_CONFIRMED, D_REJECTED, D_COMPLETED, D_CANCELLED} \<longrightarrow>
        processDriverResponse did response aid user now st =
          (Inl (BadRequestException
             (''Assignment is not in DISPATCHED status. Current status: '' @
                DispatchStatus_value (da_status a))), st))"
proof (intro conjI impI)
  assume h: "find (\<lambda>t. lt_id t = tid \<and> lt_carrierId t = cid) (tenders st) = Some t \<and>
      lt_status t \<in> {T_ACCEPTED, T_REJECTED, T_EXPIRED, T_CANCELLED}"
  then have "lt_status t \<noteq> T_OFFERED" by auto
  with h show "acceptTender tid cid user now st =
          (Inl (BadRequestException ''Tender cannot be accepted in current status''), st)"
    and "rejectTender tid cid reason user now st =
          (Inl (BadRequestException ''Tender cannot be rejected in current status''), st)"
    by (simp_all add: acceptTender_not_offered rejectTender_not_offered)
next
  assume "find (\<lambda>t. lt_id t = tid') (tenders st) = Some t' \<and>
      lt_status t' \<in> {T_EXPIRED, T_CANCELLED}"
  then show "cancelTender tid' why user now st =
          (Inl (BadRequestException ''Tender is already cancelled or expired''), st)"
    by (intro cancelTender_cancelled_or_expired [of _ _ t']) auto
next
  assume h: "find (\<lambda>t. lt_id t = tid') (tenders st) = Some t' \<and> lt_status t' = T_ACCEPTED"
  then show "\<not> isl (fst (cancelTender tid' why user now st))"
    and "\<forall>r \<in> set (tenders (snd (cancelTender tid' why user now st))).
           lt_id r = tid' \<longrightarrow> lt_status r = T_CANCELLED"
    and "\<forall>s \<in> set (shipments (snd (cancelTender tid' why user now st))).
           sh_id s = lt_shipmentId t' \<longrightarrow> sh_status s = S_QUOTE"
    using cancelTender_accepted [of tid' st t'] by blast+
next
  assume h: "find (\<lambda>a. da_id a = aid \<and> da_driverId a = did) (assignments st) = Some a \<and>
      da_status a \<in> {D_CONFIRMED, D_REJECTED, D_COMPLETED, D_CANCELLED}"
  then have "da_status a \<noteq> D_DISPATCHED" by auto
  with h show "processDriverResponse did response aid user now st =
          (Inl (BadRequestException
             (''Assignment is not in DISPATCHED status. Current status: '' @
                DispatchStatus_value (da_status a))), st)"
    by (simp add: processDriverResponse_not_dispatched)
qed

theorem terminal_offer_transitions_refused_witness:
  "acceptTender ''T1'' ''C1'' broker 500 afterAccept =
     (Inl (BadRequestException ''Tender cannot be accepted in current status''), afterAccept) \<and>
   rejectTender ''T1'' ''C1'' None broker 500 afterAccept =
     (Inl (BadRequestException ''Tender cannot be rejected in current status''), afterAccept) \<and>
   cancelTender ''T3'' ''again'' broker 500 afterAccept =
     (Inl (BadRequestException ''Tender is already cancelled or expired''), afterAccept) \<and>
   processDriverResponse ''D1'' ''1'' ''A1'' broker 500 afterAccept =
     (Inl (BadRequestException
        ''Assignment is not in DISPATCHED status. Current status: CONFIRMED''), afterAccept)"
proof -
  let ?t1 = "newTender ''T1'' ''S1'' ''C1'' T_ACCEPTED 1000 [offeredEntry ''C1'']"
  let ?t3 = "newTender ''T3'' ''S1'' ''C3'' T_CANCELLED 1000 [offeredEntry ''C3'']"
  have h1: "find (\<lambda>t. lt_id t = ''T1'' \<and> lt_carrierId t = ''C1'') (tenders afterAccept) = Some ?t1
      \<and> lt_status ?t1 \<in> {T_ACCEPTED, T_REJECTED, T_EXPIRED, T_CANCELLED}"
    by (simp add: example_defs)
  have h2: "find (\<lambda>t. lt_id t = ''T3'') (tenders afterAccept) = Some ?t3
      \<and> lt_status ?t3 \<in> {T_EXPIRED, T_CANCELLED}"
    by (simp add: example_defs)
  have h3: "find (\<lambda>a. da_id a = ''A1'' \<and> da_driverId a = ''D1'') (assignments afterAccept)
        = Some (assignmentA1 D_CONFIRMED)
      \<and> da_status (assignmentA1 D_CONFIRMED) \<in> {D_CONFIRMED, D_REJECTED, D_COMPLETED, D_CANCELLED}"
    by (simp add: example_defs)
  have v: "DispatchStatus_value (da_status (assignmentA1 D_CONFIRMED)) = ''CONFIRMED''"
    by (simp add: example_defs)
  note t = terminal_offer_transitions_refused [of "''T1''" "''C1''" afterAccept ?t1 broker 500
      None "''T3''" ?t3 "''again''" "''A1''" "''D1''" "assignmentA1 D_CONFIRMED" "''1''"]
  from t h1 have a: "acceptTender ''T1'' ''C1'' broker 500 afterAccept =
      (Inl (BadRequestException ''Tender cannot be accepted in current status''), afterAccept) \<and>
    rejectTender ''T1'' ''C1'' None broker 500 afterAccept =
      (Inl (BadRequestException ''Tender cannot be rejected in current status''), afterAccept)"
    by blast
  from t h2 have b: "cancelTender ''T3'' ''again'' broker 500 afterAccept =
      (Inl (BadRequestException ''Tender is already cancelled or expired''), afterAccept)"
    by blast
  from t h3 have c: "processDriverResponse ''D1'' ''1'' ''A1'' broker 500 afterAccept =
      (Inl (BadRequestException
         (''Assignment is not in DISPATCHED status. Current status: '' @
            DispatchStatus_value (da_status (assignmentA1 D_CONFIRMED)))), afterAccept)"
    by blast
  from a b c v show ?thesis by simp
qed

text \<open>
  C1 (as stated) fails for \<open>cancelTender\<close>: the ACCEPTED tender T1 becomes CANCELLED
  and its shipment goes back to QUOTE.
\<close>

theorem cancelTender_changes_accepted_counterexample:
  "map lt_status (tenders afterAccept) = [T_ACCEPTED, T_OFFERED, T_CANCELLED] \<and>
   \<not> isl (fst (cancelTender ''T1'' ''carrier fell through'' broker 500 afterAccept)) \<and>
   map lt_status
     (tenders (snd (cancelTender ''T1'' ''carrier fell through'' broker 500 afterAccept)))
     = [T_CANCELLED, T_OFFERED, T_CANCELLED] \<and>
   map sh_status
     (shipments (snd (cancelTender ''T1'' ''carrier fell through'' broker 500 afterAccept)))
     = [S_QUOTE]"
  by (simp add: cancelTender_def cancelled_partial_def requoted_partial_def updateWhere_def
      example_defs)

section \<open>Accepting a tender\<close>

lemma accepted_partial_sel [simp]:
  "lt_id (accepted_partial tn u now r) = lt_id r"
  "lt_shipmentId (accepted_partial tn u now r) = lt_shipmentId r"
  "lt_status (accepted_partial tn u now r) = T_ACCEPTED"
  by (simp_all add: accepted_partial_def)

lemma autoCancelled_partial_sel [simp]:
  "lt_id (autoCancelled_partial now r) = lt_id r"
  "lt_shipmentId (autoCancelled_partial now r) = lt_shipmentId r"
  "lt_status (autoCancelled_partial now r) = T_CANCELLED"
  by (simp_all add: autoCancelled_partial_def)

lemma booked_partial_sel [simp]:
  "sh_id (booked_partial tn u s) = sh_id s"
  "sh_status (booked_partial tn u s) = S_BOOKED"
  by (simp_all add: booked_partial_def)

lemma find_Some_mem: "find P xs = Some x \<Longrightarrow> x \<in> set xs \<and> P x"
  by (induction xs) (auto split: if_splits)

lemma distinct_filter_key:
  "distinct (map k xs) \<Longrightarrow> x \<in> set xs \<Longrightarrow> filter (\<lambda>r. k r = k x) xs = [x]"
proof (induction xs)
  case Nil
  then show ?case by simp
next
  case (Cons a xs)
  show ?case
  proof (cases "a = x")
    case True
    from Cons.prems have "k a \<notin> k ` set xs" by simp
    with True have "\<forall>r \<in> set xs. k r \<noteq> k x" by (metis imageI)
    then have "filter (\<lambda>r. k r = k x) xs = []" by (simp add: filter_empty_conv)
    with True show ?thesis by simp
  next
    case False
    with Cons.prems have "x \<in> set xs" and "k a \<noteq> k x" and "distinct (map k xs)"
      by auto
    with Cons.IH show ?thesis by simp
  qed
qed

text \<open>What a successful \<open>acceptTender\<close> writes, table by table.\<close>

lemma acceptTender_success:
  assumes "find (\<lambda>r. lt_id r = tid \<and> lt_carrierId r = cid) (tenders st) = Some t"
    and "lt_status t = T_OFFERED"
    and "\<not> dateAfter now (lt_offerExpiryDate t)"
  shows "fst (acceptTender tid cid user now st) =
           Inr \<lparr>tr_success = True, tr_tender = t\<lparr>lt_status := T_ACCEPTED\<rparr>,
                tr_message = ''Tender accepted successfully'',
                tr_nextActions = [''Shipment is now booked'',
                   ''Generate BOL and documents'', ''Schedule pickup'']\<rparr>"
    and "tenders (snd (acceptTender tid cid user now st)) =
           updateWhere (\<lambda>r. lt_shipmentId r = lt_shipmentId t \<and> lt_status r = T_OFFERED)
             (autoCancelled_partial now)
             (updateWhere (\<lambda>r. lt_id r = tid) (accepted_partial t user now) (tenders st))"
    and "shipments (snd (acceptTender tid cid user now st)) =
           updateWhere (\<lambda>s. sh_id s = lt_shipmentId t) (booked_partial t user) (shipments st)"
    and "drivers (snd (acceptTender tid cid user now st)) = drivers st"
    and "assignments (snd (acceptTender tid cid user now st)) = assignments st"
  using assms
  by (simp_all add: acceptTender_def findTenderForResponse_def rejectOtherTenders_def Let_def)

lemma acceptTender_tenders:
  assumes "find (\<lambda>r. lt_id r = tid \<and> lt_carrierId r = cid) (tenders st) = Some t"
    and "lt_status t = T_OFFERED"
    and "\<not> dateAfter now (lt_offerExpiryDate t)"
  shows "tenders (snd (acceptTender tid cid user now st)) =
           map (\<lambda>r. if lt_id r = tid then accepted_partial t user now r
                     else if lt_shipmentId r = lt_shipmentId t \<and> lt_status r = T_OFFERED
                       then autoCancelled_partial now r
                     else r) (tenders st)"
  using acceptTender_success(2) [OF assms] by (simp add: updateWhere_def)

lemma acceptTender_failure_unchanged:
  "isl (fst (acceptTender tid cid user now st)) \<Longrightarrow> snd (acceptTender tid cid user now st) = st"
  by (simp add: acceptTender_def findTenderForResponse_def Let_def
      split: option.splits if_splits)

text \<open>
  C2 (as amended). Accepting an OFFERED, unexpired tender succeeds; the tender becomes
  ACCEPTED, every other tender of the shipment that was OFFERED becomes CANCELLED, the
  shipment becomes BOOKED, and no tender of the shipment remains OFFERED. The accepted
  tender is the only ACCEPTED tender of the shipment when tender ids are unique and no
  tender of the shipment was ACCEPTED before the call. A failing call returns the store
  it was given (the transaction is rolled back).
\<close>

theorem acceptTender_single_winner:
  assumes found: "find (\<lambda>r. lt_id r = tid \<and> lt_carrierId r = cid) (tenders st) = Some t"
    and offered: "lt_status t = T_OFFERED"
    and unexpired: "\<not> dateAfter now (lt_offerExpiryDate t)"
    and run: "acceptTender tid cid user now st = (res, st')"
  shows "(\<exists>resp. res = Inr resp \<and> tr_success resp \<and> lt_status (tr_tender resp) = T_ACCEPTED) \<and>
    (\<forall>r \<in> set (tenders st'). lt_id r = tid \<longrightarrow> lt_status r = T_ACCEPTED) \<and>
    length (tenders st') = length (tenders st) \<and>
    (\<forall>i < length (tenders st).
        lt_id (tenders st' ! i) = lt_id (tenders st ! i) \<and>
        (lt_id (tenders st ! i) \<noteq> tid \<and> lt_shipmentId (tenders st ! i) = lt_shipmentId t \<and>
           lt_status (tenders st ! i) = T_OFFERED \<longrightarrow>
             lt_status (tenders st' ! i) = T_CANCELLED)) \<and>
    (\<forall>s \<in> set (shipments st'). sh_id s = lt_shipmentId t \<longrightarrow> sh_status s = S_BOOKED) \<and>
    (\<forall>r \<in> set (tenders st'). lt_shipmentId r = lt_shipmentId t \<longrightarrow> lt_status r \<noteq> T_OFFERED) \<and>
    (distinct (map lt_id (tenders st)) \<and>
       (\<forall>r \<in> set (tenders st). lt_shipmentId r = lt_shipmentId t \<longrightarrow> lt_status r \<noteq> T_ACCEPTED) \<longrightarrow>
         map lt_id (filter (\<lambda>r. lt_shipmentId r = lt_shipmentId t \<and> lt_status r = T_ACCEPTED)
                      (tenders st')) = [tid]) \<and>
    (\<forall>tid' cid' user' now' st0.
        isl (fst (acceptTender tid' cid' user' now' st0)) \<longrightarrow>
          snd (acceptTender tid' cid' user' now' st0) = st0)"
proof -
  define h where "h = (\<lambda>r. if lt_id r = tid then accepted_partial t user now r
                     else if lt_shipmentId r = lt_shipmentId t \<and> lt_status r = T_OFFERED
                       then autoCancelled_partial now r
                     else r)"
  have h_id [simp]: "lt_id (h r) = lt_id r" for r by (simp add: h_def)
  have h_ship [simp]: "lt_shipmentId (h r) = lt_shipmentId r" for r by (simp add: h_def)
  have h_status: "lt_status (h r) =
     (if lt_id r = tid then T_ACCEPTED
      else if lt_shipmentId r = lt_shipmentId t \<and> lt_status r = T_OFFERED then T_CANCELLED
      else lt_status r)" for r by (simp add: h_def)
  from run have res: "res = fst (acceptTender tid cid user now st)"
    and st': "st' = snd (acceptTender tid cid user now st)" by simp_all
  have T: "tenders st' = map h (tenders st)"
    unfolding st' h_def by (rule acceptTender_tenders [OF found offered unexpired])
  have S: "shipments st' =
      updateWhere (\<lambda>s. sh_id s = lt_shipmentId t) (booked_partial t user) (shipments st)"
    unfolding st' by (rule acceptTender_success(3) [OF found offered unexpired])
  from find_Some_mem [OF found] have tmem: "t \<in> set (tenders st)" and tid: "lt_id t = tid"
    by simp_all
  have c1: "\<exists>resp. res = Inr resp \<and> tr_success resp \<and> lt_status (tr_tender resp) = T_ACCEPTED"
    unfolding res acceptTender_success(1) [OF found offered unexpired] by simp
  have c2: "\<forall>r \<in> set (tenders st'). lt_id r = tid \<longrightarrow> lt_status r = T_ACCEPTED"
    unfolding T by (auto simp: h_status)
  have c3: "length (tenders st') = length (tenders st)"
    unfolding T by simp
  have c4: "\<forall>i < length (tenders st).
        lt_id (tenders st' ! i) = lt_id (tenders st ! i) \<and>
        (lt_id (tenders st ! i) \<noteq> tid \<and> lt_shipmentId (tenders st ! i) = lt_shipmentId t \<and>
           lt_status (tenders st ! i) = T_OFFERED \<longrightarrow>
             lt_status (tenders st' ! i) = T_CANCELLED)"
    unfolding T by (simp add: h_status)
  have c5: "\<forall>s \<in> set (shipments st'). sh_id s = lt_shipmentId t \<longrightarrow> sh_status s = S_BOOKED"
    unfolding S by (rule updateWhere_key) simp_all
  have c6: "\<forall>r \<in> set (tenders st'). lt_shipmentId r = lt_shipmentId t \<longrightarrow> lt_status r \<noteq> T_OFFERED"
    unfolding T by (auto simp: h_status)
  have c7: "map lt_id (filter (\<lambda>r. lt_shipmentId r = lt_shipmentId t \<and> lt_status r = T_ACCEPTED)
                      (tenders st')) = [tid]"
    if d: "distinct (map lt_id (tenders st))"
      and n: "\<forall>r \<in> set (tenders st). lt_shipmentId r = lt_shipmentId t \<longrightarrow> lt_status r \<noteq> T_ACCEPTED"
  proof -
    have only: "\<forall>r \<in> set (tenders st). lt_id r = tid \<longrightarrow> r = t"
      using d tmem tid by (metis distinct_map inj_onD)
    have "filter ((\<lambda>r. lt_shipmentId r = lt_shipmentId t \<and> lt_status r = T_ACCEPTED) \<circ> h)
            (tenders st) = filter (\<lambda>r. lt_id r = lt_id t) (tenders st)"
      using n only tid by (intro filter_cong refl) (auto simp: h_status)
    also have "\<dots> = [t]" by (rule distinct_filter_key [OF d tmem])
    finally show ?thesis unfolding T by (simp add: filter_map tid)
  qed
  have c8: "\<forall>tid' cid' user' now' st0.
        isl (fst (acceptTender tid' cid' user' now' st0)) \<longrightarrow>
          snd (acceptTender tid' cid' user' now' st0) = st0"
    by (simp add: acceptTender_failure_unchanged)
  from c1 c2 c3 c4 c5 c6 c7 c8 show ?thesis by blast
qed

theorem acceptTender_single_winner_witness:
  "find (\<lambda>r. lt_id r = ''T2'' \<and> lt_carrierId r = ''C2'') (tenders twoOffers) =
      Some (newTender ''T2'' ''S1'' ''C2'' T_OFFERED 1000 [offeredEntry ''C2'']) \<and>
   \<not> isl (fst (acceptTender ''T2'' ''C2'' broker 500 twoOffers)) \<and>
   length (tenders (snd (acceptTender ''T2'' ''C2'' broker 500 twoOffers))) = 2 \<and>
   map lt_id (filter (\<lambda>r. lt_shipmentId r = ''S1'' \<and> lt_status r = T_ACCEPTED)
     (tenders (snd (acceptTender ''T2'' ''C2'' broker 500 twoOffers)))) = [''T2'']"
proof -
  let ?t2 = "newTender ''T2'' ''S1'' ''C2'' T_OFFERED 1000 [offeredEntry ''C2'']"
  have found: "find (\<lambda>r. lt_id r = ''T2'' \<and> lt_carrierId r = ''C2'') (tenders twoOffers)
      = Some ?t2"
    by (simp add: example_defs)
  have offered: "lt_status ?t2 = T_OFFERED" by (simp add: example_defs)
  have unexpired: "\<not> dateAfter 500 (lt_offerExpiryDate ?t2)" by (simp add: example_defs)
  have run: "acceptTender ''T2'' ''C2'' broker 500 twoOffers =
      (fst (acceptTender ''T2'' ''C2'' broker 500 twoOffers),
       snd (acceptTender ''T2'' ''C2'' broker 500 twoOffers))" by simp
  have d: "distinct (map lt_id (tenders twoOffers))" by (simp add: example_defs)
  have n: "\<forall>r \<in> set (tenders twoOffers).
      lt_shipmentId r = lt_shipmentId ?t2 \<longrightarrow> lt_status r \<noteq> T_ACCEPTED"
    by (simp add: example_defs)
  have s: "lt_shipmentId ?t2 = ''S1''" and l: "length (tenders twoOffers) = 2"
    by (simp_all add: example_defs)
  note w = acceptTender_single_winner [OF found offered unexpired run]
  from w have a: "\<not> isl (fst (acceptTender ''T2'' ''C2'' broker 500 twoOffers))" by auto
  from w l have b: "length (tenders (snd (acceptTender ''T2'' ''C2'' broker 500 twoOffers))) = 2"
    by simp
  from w d n have "map lt_id (filter (\<lambda>r. lt_shipmentId r = lt_shipmentId ?t2 \<and>
        lt_status r = T_ACCEPTED)
      (tenders (snd (acceptTender ''T2'' ''C2'' broker 500 twoOffers)))) = [''T2'']"
    by blast
  with s found a b show ?thesis by simp
qed

text \<open>
  C2 (as stated) fails where another tender of the shipment is already ACCEPTED:
  accepting T2 succeeds and leaves two ACCEPTED tenders for shipment S1.
\<close>

theorem acceptTender_second_winner_counterexample:
  "\<not> isl (fst (acceptTender ''T2'' ''C2'' broker 500 afterAccept)) \<and>
   map lt_id (filter (\<lambda>r. lt_shipmentId r = ''S1'' \<and> lt_status r = T_ACCEPTED)
     (tenders (snd (acceptTender ''T2'' ''C2'' broker 500 afterAccept)))) = [''T1'', ''T2'']"
  by (simp add: acceptTender_def findTenderForResponse_def rejectOtherTenders_def
      accepted_partial_def autoCancelled_partial_def booked_partial_def updateWhere_def
      example_defs)

section \<open>Expired tenders\<close>

text \<open>
  C3 (as amended). Accepting an OFFERED tender whose expiry date lies in the past fails
  with the error "Tender has expired" and returns the store it was given: the tender
  stays OFFERED.
\<close>

theorem acceptTender_expired_refused:
  assumes "find (\<lambda>r. lt_id r = tid \<and> lt_carrierId r = cid) (tenders st) = Some t"
    and "lt_status t = T_OFFERED"
    and "lt_offerExpiryDate t = Some expiry" and "expiry < now"
  shows "acceptTender tid cid user now st =
           (Inl (BadRequestException ''Tender has expired''), st)"
  using assms by (simp add: acceptTender_def findTenderForResponse_def)

theorem acceptTender_expired_refused_witness:
  "acceptTender ''T2'' ''C2'' broker 1500 twoOffers =
     (Inl (BadRequestException ''Tender has expired''), twoOffers)"
proof -
  let ?t2 = "newTender ''T2'' ''S1'' ''C2'' T_OFFERED 1000 [offeredEntry ''C2'']"
  have found: "find (\<lambda>r. lt_id r = ''T2'' \<and> lt_carrierId r = ''C2'') (tenders twoOffers)
      = Some ?t2"
    by (simp add: example_defs)
  have offered: "lt_status ?t2 = T_OFFERED"
    and expiry: "lt_offerExpiryDate ?t2 = Some 1000" by (simp_all add: example_defs)
  have past: "(1000::int) < 1500" by simp
  show ?thesis by (rule acceptTender_expired_refused [OF found offered expiry past])
qed

text \<open>
  C3 (as stated) fails: after the refused attempt the expired tender T2 is still
  OFFERED, not EXPIRED.
\<close>

theorem acceptTender_expired_stays_offered_counterexample:
  "fst (acceptTender ''T2'' ''C2'' broker 1500 twoOffers) =
     Inl (BadRequestException ''Tender has expired'') \<and>
   map (\<lambda>r. (lt_id r, lt_status r))
     (tenders (snd (acceptTender ''T2'' ''C2'' broker 1500 twoOffers))) =
     [(''T1'', T_OFFERED), (''T2'', T_OFFERED)]"
  by (simp add: acceptTender_def findTenderForResponse_def example_defs)

section \<open>Audit trail\<close>

text \<open>
  C5 (the code at the failing input). T1 and T2 are both OFFERED for shipment S1 and
  each trail holds its OFFERED entry. Accepting T2 appends one entry to T2's trail, as
  every direct transition does, but the cascade replaces T1's trail by the single
  AUTO_CANCELLED entry: T1's OFFERED entry is gone.
\<close>

theorem rejectOtherTenders_replaces_auditTrail:
  "map lt_auditTrail (tenders twoOffers) =
     [Some [offeredEntry ''C1''], Some [offeredEntry ''C2'']] \<and>
   map lt_auditTrail (tenders (snd (acceptTender ''T2'' ''C2'' broker 500 twoOffers))) =
     [Some [\<lparr>ae_action = ''AUTO_CANCELLED'', ae_timestamp = 500, ae_userId = None,
             ae_notes = Some ''Cancelled due to another tender being accepted''\<rparr>],
      Some [offeredEntry ''C2'',
            \<lparr>ae_action = ''ACCEPTED'', ae_timestamp = 500, ae_userId = Some ''u1'',
             ae_notes = Some ''Tender accepted by carrier''\<rparr>]]"
  by (simp add: acceptTender_def findTenderForResponse_def rejectOtherTenders_def
      accepted_partial_def autoCancelled_partial_def booked_partial_def updateWhere_def
      example_defs)

section \<open>Driver responses\<close>

lemma find_append_last:
  "\<forall>x \<in> set xs. \<not> P x \<Longrightarrow> P y \<Longrightarrow> find P (xs @ [y]) = Some y"
  by (induction xs) auto

lemma find_updateWhere_key:
  assumes "\<And>r. k (f r) = k r"
  shows "find (\<lambda>r. k r = i) (updateWhere (\<lambda>r. k r = i) f rows) =
           map_option f (find (\<lambda>r. k r = i) rows)"
  using assms by (induction rows) (auto simp: updateWhere_def)

lemma confirmedShipment_partial_sel [simp]:
  "sh_id (confirmedShipment_partial u s) = sh_id s"
  "sh_status (confirmedShipment_partial u s) = S_BOOKED"
  by (simp_all add: confirmedShipment_partial_def)

lemma rejectedShipment_partial_sel [simp]:
  "sh_id (rejectedShipment_partial u s) = sh_id s"
  "sh_status (rejectedShipment_partial u s) = S_TENDERED"
  "sh_assignedDriverId (rejectedShipment_partial u s) = None"
  by (simp_all add: rejectedShipment_partial_def)

lemma responded_partial_sel [simp]:
  "da_id (responded_partial a r u now x) = da_id x"
  "da_status (responded_partial a r u now x) = (if r = ''1'' then D_CONFIRMED else D_REJECTED)"
  by (simp_all add: responded_partial_def)

lemma confirmedDriver_partial_sel [simp]:
  "dr_id (confirmedDriver_partial d x) = dr_id x"
  "dr_completedLoads (confirmedDriver_partial d x) = dr_completedLoads d + 1"
  by (simp_all add: confirmedDriver_partial_def)

lemma rejectedDriver_partial_sel [simp]:
  "dr_id (rejectedDriver_partial x) = dr_id x"
  "dr_completedLoads (rejectedDriver_partial x) = dr_completedLoads x"
  by (simp_all add: rejectedDriver_partial_def)

lemma dispatchedDriver_partial_sel [simp]:
  "dr_id (dispatchedDriver_partial d now x) = dr_id x"
  "dr_completedLoads (dispatchedDriver_partial d now x) = dr_completedLoads d + 1"
  by (simp_all add: dispatchedDriver_partial_def)

text \<open>What \<open>processDriverResponse\<close> writes for a DISPATCHED assignment.\<close>

lemma processDriverResponse_success:
  assumes "find (\<lambda>a. da_id a = aid \<and> da_driverId a = did) (assignments st) = Some a"
    and "da_status a = D_DISPATCHED"
    and "find (\<lambda>d. dr_id d = da_driverId a) (drivers st) = Some driver"
    and "response = ''1'' \<or> response = ''2''"
  shows "\<not> isl (fst (processDriverResponse did response aid user now st))"
    and "shipments (snd (processDriverResponse did response aid user now st)) =
           updateWhere (\<lambda>s. sh_id s = da_shipmentId a)
             (if response = ''1'' then confirmedShipment_partial user
              else rejectedShipment_partial user) (shipments st)"
    and "drivers (snd (processDriverResponse did response aid user now st)) =
           updateWhere (\<lambda>d. dr_id d = did)
             (if response = ''1'' then confirmedDriver_partial driver
              else rejectedDriver_partial) (drivers st)"
    and "assignments (snd (processDriverResponse did response aid user now st)) =
           updateWhere (\<lambda>x. da_id x = aid)
             (responded_partial a response user now) (assignments st)"
    and "tenders (snd (processDriverResponse did response aid user now st)) = tenders st"
  using assms by (auto simp: processDriverResponse_def Let_def)

text \<open>
  C4 (as amended). For a dispatch assignment in the DISPATCHED state, processing the
  response \<open>''1''\<close> succeeds and sets the status of every shipment row of the
  assignment's shipment to BOOKED, leaving the other rows as they were; the assignment
  becomes CONFIRMED. Processing \<open>''2''\<close> succeeds, sets the shipment's status to
  TENDERED and clears its assigned driver; the assignment becomes REJECTED.
\<close>

theorem processDriverResponse_shipment_status:
  assumes found: "find (\<lambda>a. da_id a = aid \<and> da_driverId a = did) (assignments st) = Some a"
    and dispatched: "da_status a = D_DISPATCHED"
    and driver: "find (\<lambda>d. dr_id d = da_driverId a) (drivers st) = Some driver"
  shows "\<not> isl (fst (processDriverResponse did ''1'' aid user now st)) \<and>
    shipments (snd (processDriverResponse did ''1'' aid user now st)) =
      map (\<lambda>s. if sh_id s = da_shipmentId a
                then s\<lparr>sh_status := S_BOOKED, sh_updatedById := Some (u_id user)\<rparr>
                else s) (shipments st) \<and>
    map da_id (assignments (snd (processDriverResponse did ''1'' aid user now st))) =
      map da_id (assignments st) \<and>
    map da_status (assignments (snd (processDriverResponse did ''1'' aid user now st))) =
      map (\<lambda>x. if da_id x = aid then D_CONFIRMED else da_status x) (assignments st) \<and>
    \<not> isl (fst (processDriverResponse did ''2'' aid user now st)) \<and>
    shipments (snd (processDriverResponse did ''2'' aid user now st)) =
      map (\<lambda>s. if sh_id s = da_shipmentId a
                then s\<lparr>sh_status := S_TENDERED, sh_assignedDriverId := None,
                       sh_updatedById := Some (u_id user)\<rparr>
                else s) (shipments st) \<and>
    map da_id (assignments (snd (processDriverResponse did ''2'' aid user now st))) =
      map da_id (assignments st) \<and>
    map da_status (assignments (snd (processDriverResponse did ''2'' aid user now st))) =
      map (\<lambda>x. if da_id x = aid then D_REJECTED else da_status x) (assignments st)"
proof -
  note one = processDriverResponse_success [OF found dispatched driver, of "''1''" user now]
  note two = processDriverResponse_success [OF found dispatched driver, of "''2''" user now]
  have a1: "\<not> isl (fst (processDriverResponse did ''1'' aid user now st))"
    using one(1) by simp
  have a2: "shipments (snd (processDriverResponse did ''1'' aid user now st)) =
      map (\<lambda>s. if sh_id s = da_shipmentId a
                then s\<lparr>sh_status := S_BOOKED, sh_updatedById := Some (u_id user)\<rparr>
                else s) (shipments st)"
    using one(2) by (simp add: updateWhere_def confirmedShipment_partial_def)
  have a3: "map da_id (assignments (snd (processDriverResponse did ''1'' aid user now st))) =
      map da_id (assignments st)"
    using one(4) by (simp add: updateWhere_def)
  have a4: "map da_status (assignments (snd (processDriverResponse did ''1'' aid user now st))) =
      map (\<lambda>x. if da_id x = aid then D_CONFIRMED else da_status x) (assignments st)"
    using one(4) by (simp add: updateWhere_def)
  have b1: "\<not> isl (fst (processDriverResponse did ''2'' aid user now st))"
    using two(1) by simp
  have b2: "shipments (snd (processDriverResponse did ''2'' aid user now st)) =
      map (\<lambda>s. if sh_id s = da_shipmentId a
                then s\<lparr>sh_status := S_TENDERED, sh_assignedDriverId := None,
                       sh_updatedById := Some (u_id user)\<rparr>
                else s) (shipments st)"
    using two(2) by (simp add: updateWhere_def rejectedShipment_partial_def)
  have b3: "map da_id (assignments (snd (processDriverResponse did ''2'' aid user now st))) =
      map da_id (assignments st)"
    using two(4) by (simp add: updateWhere_def)
  have b4: "map da_status (assignments (snd (processDriverResponse did ''2'' aid user now st))) =
      map (\<lambda>x. if da_id x = aid then D_REJECTED else da_status x) (assignments st)"
    using two(4) by (simp add: updateWhere_def)
  from a1 a2 a3 a4 b1 b2 b3 b4 show ?thesis by blast
qed

theorem processDriverResponse_shipment_status_witness:
  "map (\<lambda>s. (sh_id s, sh_status s, sh_assignedDriverId s)) (shipments dispatched) =
     [(''S1'', S_TENDERED, Some ''D1'')] \<and>
   \<not> isl (fst (processDriverResponse ''D1'' ''1'' ''A1'' broker 500 dispatched)) \<and>
   map (\<lambda>s. (sh_id s, sh_status s, sh_assignedDriverId s))
     (shipments (snd (processDriverResponse ''D1'' ''1'' ''A1'' broker 500 dispatched))) =
     [(''S1'', S_BOOKED, Some ''D1'')] \<and>
   map da_status
     (assignments (snd (processDriverResponse ''D1'' ''1'' ''A1'' broker 500 dispatched))) =
     [D_CONFIRMED] \<and>
   \<not> isl (fst (processDriverResponse ''D1'' ''2'' ''A1'' broker 500 dispatched)) \<and>
   map (\<lambda>s. (sh_id s, sh_status s, sh_assignedDriverId s))
     (shipments (snd (processDriverResponse ''D1'' ''2'' ''A1'' broker 500 dispatched))) =
     [(''S1'', S_TENDERED, None)] \<and>
   map da_status
     (assignments (snd (processDriverResponse ''D1'' ''2'' ''A1'' broker 500 dispatched))) =
     [D_REJECTED]"
proof -
  have found: "find (\<lambda>a. da_id a = ''A1'' \<and> da_driverId a = ''D1'') (assignments dispatched) =
      Some (assignmentA1 D_DISPATCHED)"
    by (simp add: example_defs)
  have st: "da_status (assignmentA1 D_DISPATCHED) = D_DISPATCHED"
    by (simp add: example_defs)
  have driver: "find (\<lambda>d. dr_id d = da_driverId (assignmentA1 D_DISPATCHED)) (drivers dispatched) =
      Some (driverD1\<lparr>dr_status := DR_ON_LOAD\<rparr>)"
    by (simp add: example_defs)
  have rows: "shipments dispatched = [shipmentS1 S_TENDERED\<lparr>sh_assignedDriverId := Some ''D1''\<rparr>]"
    "assignments dispatched = [assignmentA1 D_DISPATCHED]"
    by (simp_all add: example_defs)
  note t = processDriverResponse_shipment_status [OF found st driver, of broker 500,
      unfolded rows]
  from t show ?thesis unfolding rows by (simp add: shipmentS1_def assignmentA1_def)
qed

text \<open>
  C4 (as stated) fails for the accept response: the shipment's status after the call is
  the enum member whose value is BOOKED. CONFIRMED is the new status of the assignment,
  not of the shipment.
\<close>

theorem processDriverResponse_books_counterexample:
  "\<not> isl (fst (processDriverResponse ''D1'' ''1'' ''A1'' getMockUserForWebhook 500 dispatched)) \<and>
   map (\<lambda>s. ShipmentStatus_value (sh_status s))
     (shipments (snd (processDriverResponse ''D1'' ''1'' ''A1'' getMockUserForWebhook 500
        dispatched))) = [''BOOKED''] \<and>
   map da_status
     (assignments (snd (processDriverResponse ''D1'' ''1'' ''A1'' getMockUserForWebhook 500
        dispatched))) = [D_CONFIRMED]"
  by (simp add: processDriverResponse_def confirmedDriver_partial_def
      confirmedShipment_partial_def responded_partial_def updateWhere_def example_defs)

section \<open>The completed-loads counter\<close>

lemma assignDriver_success:
  assumes "assignDriver req user newId msg now st = (Inr resp, st1)"
  shows "\<exists>driver. find (\<lambda>d. dr_id d = rq_driverId req) (drivers st) = Some driver \<and>
     drivers st1 = updateWhere (\<lambda>d. dr_id d = rq_driverId req)
        (dispatchedDriver_partial driver now) (drivers st) \<and>
     assignments st1 = assignments st @ [createdAssignment req user driver newId msg now]"
  using assms
  by (auto simp: assignDriver_def validateDriverForAssignment_def Let_def
      split: sum.splits option.splits if_splits)

lemma createdAssignment_sel [simp]:
  "da_id (createdAssignment req user driver newId msg now) = newId"
  "da_driverId (createdAssignment req user driver newId msg now) = rq_driverId req"
  "da_status (createdAssignment req user driver newId msg now) = D_DISPATCHED"
  by (simp_all add: createdAssignment_def)

text \<open>
  C10. A successful \<open>assignDriver\<close> raises the driver's \<open>completedLoads\<close> by one.
  A later accept response to the new assignment raises it again, to two above the
  value before the dispatch; a reject response leaves it one above that value.
\<close>

theorem completedLoads_counted_at_dispatch_and_confirm:
  assumes ok: "assignDriver req user newId msg now st = (Inr resp, st1)"
    and fresh: "newId \<notin> da_id ` set (assignments st)"
  shows "\<exists>c.
    map_option dr_completedLoads (find (\<lambda>d. dr_id d = rq_driverId req) (drivers st)) = Some c \<and>
    map_option dr_completedLoads (find (\<lambda>d. dr_id d = rq_driverId req) (drivers st1)) =
      Some (c + 1) \<and>
    \<not> isl (fst (processDriverResponse (rq_driverId req) ''1'' newId user' now' st1)) \<and>
    map_option dr_completedLoads (find (\<lambda>d. dr_id d = rq_driverId req)
       (drivers (snd (processDriverResponse (rq_driverId req) ''1'' newId user' now' st1)))) =
      Some (c + 2) \<and>
    \<not> isl (fst (processDriverResponse (rq_driverId req) ''2'' newId user' now' st1)) \<and>
    map_option dr_completedLoads (find (\<lambda>d. dr_id d = rq_driverId req)
       (drivers (snd (processDriverResponse (rq_driverId req) ''2'' newId user' now' st1)))) =
      Some (c + 1)"
proof -
  let ?did = "rq_driverId req"
  from assignDriver_success [OF ok] obtain driver where
    d0: "find (\<lambda>d. dr_id d = ?did) (drivers st) = Some driver" and
    D1: "drivers st1 = updateWhere (\<lambda>d. dr_id d = ?did)
        (dispatchedDriver_partial driver now) (drivers st)" and
    A1: "assignments st1 = assignments st @ [createdAssignment req user driver newId msg now]"
    by blast
  let ?a = "createdAssignment req user driver newId msg now"
  let ?d1 = "dispatchedDriver_partial driver now driver"
  have d1: "find (\<lambda>d. dr_id d = ?did) (drivers st1) = Some ?d1"
    unfolding D1 by (simp add: find_updateWhere_key d0)
  have found: "find (\<lambda>a. da_id a = newId \<and> da_driverId a = ?did) (assignments st1) = Some ?a"
    unfolding A1 using fresh by (intro find_append_last) auto
  have disp: "da_status ?a = D_DISPATCHED" by simp
  have rel: "find (\<lambda>d. dr_id d = da_driverId ?a) (drivers st1) = Some ?d1"
    using d1 by simp
  note one = processDriverResponse_success [OF found disp rel, of "''1''" user' now']
  note two = processDriverResponse_success [OF found disp rel, of "''2''" user' now']
  have c0: "map_option dr_completedLoads (find (\<lambda>d. dr_id d = ?did) (drivers st)) =
      Some (dr_completedLoads driver)"
    by (simp add: d0)
  have c1: "map_option dr_completedLoads (find (\<lambda>d. dr_id d = ?did) (drivers st1)) =
      Some (dr_completedLoads driver + 1)"
    by (simp add: d1)
  have c2: "map_option dr_completedLoads (find (\<lambda>d. dr_id d = ?did)
       (drivers (snd (processDriverResponse ?did ''1'' newId user' now' st1)))) =
      Some (dr_completedLoads driver + 2)"
    using one(3) by (simp add: find_updateWhere_key d1)
  have c3: "map_option dr_completedLoads (find (\<lambda>d. dr_id d = ?did)
       (drivers (snd (processDriverResponse ?did ''2'' newId user' now' st1)))) =
      Some (dr_completedLoads driver + 1)"
    using two(3) by (simp add: find_updateWhere_key d1)
  from c0 c1 c2 c3 one(1) two(1) show ?thesis
    by (intro exI [of _ "dr_completedLoads driver"]) blast
qed

theorem completedLoads_counted_at_dispatch_and_confirm_witness:
  "\<not> isl (fst (assignDriver dispatchS1D1 broker ''A9'' ''Dispatch Alert'' 500 booked)) \<and>
   map_option dr_completedLoads (find (\<lambda>d. dr_id d = ''D1'') (drivers booked)) = Some 7 \<and>
   map_option dr_completedLoads (find (\<lambda>d. dr_id d = ''D1'')
     (drivers (snd (assignDriver dispatchS1D1 broker ''A9'' ''Dispatch Alert'' 500 booked)))) =
     Some 8 \<and>
   map_option dr_completedLoads (find (\<lambda>d. dr_id d = ''D1'')
     (drivers (snd (processDriverResponse ''D1'' ''1'' ''A9'' getMockUserForWebhook 600
        (snd (assignDriver dispatchS1D1 broker ''A9'' ''Dispatch Alert'' 500 booked)))))) =
     Some 9 \<and>
   map_option dr_completedLoads (find (\<lambda>d. dr_id d = ''D1'')
     (drivers (snd (processDriverResponse ''D1'' ''2'' ''A9'' getMockUserForWebhook 600
        (snd (assignDriver dispatchS1D1 broker ''A9'' ''Dispatch Alert'' 500 booked)))))) =
     Some 8"
proof -
  let ?run = "assignDriver dispatchS1D1 broker ''A9'' ''Dispatch Alert'' 500 booked"
  have s: "\<not> isl (fst ?run)"
    by (simp add: assignDriver_def validateShipmentForDispatch_def
        validateDriverForAssignment_def isDriverAvailable_def stringLessThanDate_def
        stringToNumber_def isDigit_def Let_def example_defs)
  then obtain resp where "fst ?run = Inr resp" by (cases "fst ?run") auto
  then have ok: "?run = (Inr resp, snd ?run)" by (metis prod.collapse)
  have fresh: "''A9'' \<notin> da_id ` set (assignments booked)" by (simp add: example_defs)
  have did: "rq_driverId dispatchS1D1 = ''D1''" by (simp add: example_defs)
  have c: "map_option dr_completedLoads (find (\<lambda>d. dr_id d = ''D1'') (drivers booked)) = Some 7"
    by (simp add: example_defs)
  from completedLoads_counted_at_dispatch_and_confirm [OF ok fresh,
      of getMockUserForWebhook 600] c s
  show ?thesis unfolding did by auto
qed

section \<open>Driver eligibility\<close>

text \<open>
  C9 (the code at the failing input). Driver D2 is active, on ACTIVE status and without
  a medical certificate; the license expired on 1 January 2020, which on 1 January
  2026 (1767225600000 ms) lies in the past. The license check compares the column's
  string with the date, which is false, so \<open>isDriverAvailable\<close> lets the driver
  through and \<open>assignDriver\<close> saves a DISPATCHED assignment.
\<close>

theorem isDriverAvailable_passes_expired_license:
  "dr_licenseExpirationDate driverD2 =
     Some \<lparr>dc_text = ''2020-01-01'', dc_instant = 1577836800000\<rparr> \<and>
   (1577836800000 :: timestamp) < 1767225600000 \<and>
   isDriverAvailable driverD2 1767225600000 \<and>
   \<not> isl (fst (assignDriver dispatchS1D2 broker ''A9'' ''Dispatch Alert'' 1767225600000
      bookedD2)) \<and>
   map (\<lambda>a. (da_id a, da_driverId a, da_status a))
     (assignments (snd (assignDriver dispatchS1D2 broker ''A9'' ''Dispatch Alert''
        1767225600000 bookedD2))) = [(''A9'', ''D2'', D_DISPATCHED)]"
proof -
  have n: "stringToNumber ''2020-01-01'' = None"
    by (simp add: stringToNumber_def isDigit_def)
  have a: "isDriverAvailable driverD2 1767225600000"
    by (simp add: isDriverAvailable_def stringLessThanDate_def n driverD2_def)
  have s: "(1577836800000 :: timestamp) < 1767225600000" by simp
  have v: "validateShipmentForDispatch ''S1'' broker bookedD2 = Inr (shipmentS1 S_BOOKED)"
    by (simp add: validateShipmentForDispatch_def bookedD2_def shipmentS1_def broker_def
        newTender_def)
  have d: "validateDriverForAssignment ''D2'' broker bookedD2 = Inr driverD2"
    by (simp add: validateDriverForAssignment_def bookedD2_def driverD2_def)
  have r: "\<not> isl (fst (assignDriver dispatchS1D2 broker ''A9'' ''Dispatch Alert''
      1767225600000 bookedD2))"
    "map (\<lambda>a. (da_id a, da_driverId a, da_status a))
     (assignments (snd (assignDriver dispatchS1D2 broker ''A9'' ''Dispatch Alert''
        1767225600000 bookedD2))) = [(''A9'', ''D2'', D_DISPATCHED)]"
    by (simp_all add: assignDriver_def dispatchS1D2_def v d a)
      (simp_all add: bookedD2_def Let_def createdAssignment_def)
  have l: "dr_licenseExpirationDate driverD2 =
     Some \<lparr>dc_text = ''2020-01-01'', dc_instant = 1577836800000\<rparr>"
    by (simp add: driverD2_def)
  from l s a r show ?thesis by simp
qed

section \<open>Classifying an inbound message\<close>

lemma toLowerChar_idem: "toLowerChar (toLowerChar c) = toLowerChar c"
proof -
  have lt: "of_char c < (256::nat)" by simp
  show ?thesis
  proof (cases "(65 \<le> (of_char c :: nat) \<and> (of_char c :: nat) \<le> 90) \<or>
      (192 \<le> (of_char c :: nat) \<and> (of_char c :: nat) \<le> 222 \<and> (of_char c :: nat) \<noteq> 215)")
    case True
    then have l: "toLowerChar c = char_of ((of_char c :: nat) + 32)"
      by (simp add: toLowerChar_def Let_def)
    from True have "(of_char c :: nat) + 32 < 256" by auto
    then have v: "(of_char (char_of ((of_char c :: nat) + 32)) :: nat) = of_char c + 32"
      by simp
    from True show ?thesis unfolding l by (auto simp: toLowerChar_def Let_def v)
  next
    case False
    then have "toLowerChar c = c" by (auto simp: toLowerChar_def Let_def)
    then show ?thesis by simp
  qed
qed

lemma toLowerCase_idem [simp]: "toLowerCase (toLowerCase s) = toLowerCase s"
  by (simp add: toLowerCase_def toLowerChar_idem)

lemma parseSmsResponse_ids:
  "ps_driverId (parseSmsResponse payload) = None \<and>
   ps_assignmentId (parseSmsResponse payload) = None"
  by (simp add: parseSmsResponse_def Let_def)

text \<open>
  C8 (as amended). The body is trimmed and lower-cased, and the rules are tried in this
  order, the first that applies deciding: the body is \<open>''1''\<close> or contains "confirm":
  accept; it is \<open>''2''\<close> or contains "reject": reject; it contains one of accept, yes,
  ok, got it, on my way: accept; it contains one of decline, no, can't, cannot,
  not available, busy: reject; otherwise the message is unrecognized, and the handler
  answers so and returns the store it was given.
\<close>

theorem parseSmsResponse_classification:
  "ps_response (parseSmsResponse payload) =
     (let body = toLowerCase (trim (p_Body payload))
      in if body = ''1'' \<or> includes_str body ''confirm'' then Some ''1''
         else if body = ''2'' \<or> includes_str body ''reject'' then Some ''2''
         else if includes_str body ''accept'' \<or> includes_str body ''yes'' \<or>
                 includes_str body ''ok'' \<or> includes_str body ''got it'' \<or>
                 includes_str body ''on my way'' then Some ''1''
         else if includes_str body ''decline'' \<or> includes_str body ''no'' \<or>
                 includes_str body [CHR ''c'', CHR ''a'', CHR ''n'', CHR 0x27, CHR ''t''] \<or>
                 includes_str body ''cannot'' \<or> includes_str body ''not available'' \<or>
                 includes_str body ''busy'' then Some ''2''
         else None) \<and>
   (ps_response (parseSmsResponse payload) = None \<longrightarrow>
      receiveSmsWebhook payload now st =
        (\<lparr>wr_success = False, wr_message = ''Unrecognized SMS response'',
          wr_processedAt = now, wr_driverId = None, wr_assignmentId = None,
          wr_nextAction = None\<rparr>, st))"
proof -
  have "ps_response (parseSmsResponse payload) = None \<longrightarrow>
      receiveSmsWebhook payload now st =
        (\<lparr>wr_success = False, wr_message = ''Unrecognized SMS response'',
          wr_processedAt = now, wr_driverId = None, wr_assignmentId = None,
          wr_nextAction = None\<rparr>, st)"
    by (simp add: receiveSmsWebhook_def Let_def)
  moreover have "ps_response (parseSmsResponse payload) =
     (let body = toLowerCase (trim (p_Body payload))
      in if body = ''1'' \<or> includes_str body ''confirm'' then Some ''1''
         else if body = ''2'' \<or> includes_str body ''reject'' then Some ''2''
         else if includes_str body ''accept'' \<or> includes_str body ''yes'' \<or>
                 includes_str body ''ok'' \<or> includes_str body ''got it'' \<or>
                 includes_str body ''on my way'' then Some ''1''
         else if includes_str body ''decline'' \<or> includes_str body ''no'' \<or>
                 includes_str body [CHR ''c'', CHR ''a'', CHR ''n'', CHR 0x27, CHR ''t''] \<or>
                 includes_str body ''cannot'' \<or> includes_str body ''not available'' \<or>
                 includes_str body ''busy'' then Some ''2''
         else None)"
    by (simp add: parseSmsResponse_def Let_def confirmPatterns_def rejectPatterns_def)
  ultimately show ?thesis by blast
qed

theorem parseSmsResponse_classification_witness:
  "ps_response (parseSmsResponse (smsFromD1 ''maybe'')) = None \<and>
   receiveSmsWebhook (smsFromD1 ''maybe'') 500 dispatched =
     (\<lparr>wr_success = False, wr_message = ''Unrecognized SMS response'',
       wr_processedAt = 500, wr_driverId = None, wr_assignmentId = None,
       wr_nextAction = None\<rparr>, dispatched) \<and>
   ps_response (parseSmsResponse (smsFromD1 ''1'')) = Some ''1'' \<and>
   ps_response (parseSmsResponse (smsFromD1 ''2'')) = Some ''2'' \<and>
   ps_response (parseSmsResponse (smsFromD1 ''On my way'')) = Some ''1'' \<and>
   ps_response (parseSmsResponse (smsFromD1 ''Not available today'')) = Some ''2''"
proof -
  have b: "toLowerCase (trim (p_Body (smsFromD1 ''maybe''))) = ''maybe''"
    "toLowerCase (trim (p_Body (smsFromD1 ''1''))) = ''1''"
    "toLowerCase (trim (p_Body (smsFromD1 ''2''))) = ''2''"
    "toLowerCase (trim (p_Body (smsFromD1 ''On my way''))) = ''on my way''"
    "toLowerCase (trim (p_Body (smsFromD1 ''Not available today''))) = ''not available today''"
    by code_simp+
  note ev = Let_def includes_str_def sublist_code
  note c = parseSmsResponse_classification [of "smsFromD1 ''maybe''" 500 dispatched,
      unfolded b]
  from c have none: "ps_response (parseSmsResponse (smsFromD1 ''maybe'')) = None"
    by (simp add: ev)
  with c have unrec: "receiveSmsWebhook (smsFromD1 ''maybe'') 500 dispatched =
     (\<lparr>wr_success = False, wr_message = ''Unrecognized SMS response'',
       wr_processedAt = 500, wr_driverId = None, wr_assignmentId = None,
       wr_nextAction = None\<rparr>, dispatched)" by blast
  have one: "ps_response (parseSmsResponse (smsFromD1 ''1'')) = Some ''1''"
    using parseSmsResponse_classification [of "smsFromD1 ''1''" 500 dispatched, unfolded b]
    by (simp add: ev)
  have two: "ps_response (parseSmsResponse (smsFromD1 ''2'')) = Some ''2''"
    using parseSmsResponse_classification [of "smsFromD1 ''2''" 500 dispatched, unfolded b]
    by (simp add: ev)
  have omw: "ps_response (parseSmsResponse (smsFromD1 ''On my way'')) = Some ''1''"
    using parseSmsResponse_classification [of "smsFromD1 ''On my way''" 500 dispatched,
        unfolded b]
    by (simp add: ev)
  have na: "ps_response (parseSmsResponse (smsFromD1 ''Not available today'')) = Some ''2''"
    using parseSmsResponse_classification [of "smsFromD1 ''Not available today''" 500
        dispatched, unfolded b]
    by (simp add: ev)
  from none unrec one two omw na show ?thesis by simp
qed

text \<open>
  C8 (as stated) fails where a body matches the accept family and contains "reject":
  the word "reject" is tested before the rest of the accept family, so the message is
  classified as a rejection.
\<close>

theorem parseSmsResponse_reject_before_accept_family_counterexample:
  "includes_str (toLowerCase (trim ''Yes, reject'')) ''yes'' \<and>
   ps_response (parseSmsResponse (smsFromD1 ''Yes, reject'')) = Some ''2''"
  by code_simp

section \<open>The webhook handler\<close>

lemma parseSmsResponse_falsy:
  "falsy (ps_response (parseSmsResponse payload)) =
     (ps_response (parseSmsResponse payload) = None)"
  by (simp add: parseSmsResponse_def Let_def)

text \<open>
  C6 (as amended). When the sender of an inbound message is a driver who has a
  dispatch assignment in a terminal state, the handler returns the store it was given
  and a response with \<open>success = False\<close>: "Unrecognized SMS response" when the body
  is not recognised, "Could not process SMS response - missing IDs" otherwise. It does
  not answer with a success.
\<close>

theorem receiveSmsWebhook_terminal_offer:
  assumes "find (\<lambda>d. dr_phoneNumber d = p_From payload) (drivers st) = Some d"
    and "a \<in> set (assignments st)"
    and "da_driverId a = dr_id d"
    and "da_status a \<in> {D_CONFIRMED, D_REJECTED, D_COMPLETED, D_CANCELLED}"
  shows "receiveSmsWebhook payload now st =
     (\<lparr>wr_success = False,
       wr_message = (if ps_response (parseSmsResponse payload) = None
                     then ''Unrecognized SMS response''
                     else ''Could not process SMS response - missing IDs''),
       wr_processedAt = now, wr_driverId = None, wr_assignmentId = None,
       wr_nextAction = None\<rparr>, st)"
  by (simp add: receiveSmsWebhook_def Let_def parseSmsResponse_ids parseSmsResponse_falsy)

theorem receiveSmsWebhook_terminal_offer_witness:
  "find (\<lambda>d. dr_phoneNumber d = p_From (smsFromD1 ''1'')) (drivers afterAccept) = Some driverD1 \<and>
   assignmentA1 D_CONFIRMED \<in> set (assignments afterAccept) \<and>
   receiveSmsWebhook (smsFromD1 ''1'') 500 afterAccept =
     (\<lparr>wr_success = False, wr_message = ''Could not process SMS response - missing IDs'',
       wr_processedAt = 500, wr_driverId = None, wr_assignmentId = None,
       wr_nextAction = None\<rparr>, afterAccept)"
proof -
  have h1: "find (\<lambda>d. dr_phoneNumber d = p_From (smsFromD1 ''1'')) (drivers afterAccept) =
      Some driverD1"
    by (simp add: example_defs)
  have h2: "assignmentA1 D_CONFIRMED \<in> set (assignments afterAccept)"
    by (simp add: afterAccept_def)
  have h3: "da_driverId (assignmentA1 D_CONFIRMED) = dr_id driverD1"
    by (simp add: example_defs)
  have h4: "da_status (assignmentA1 D_CONFIRMED) \<in>
      {D_CONFIRMED, D_REJECTED, D_COMPLETED, D_CANCELLED}"
    by (simp add: example_defs)
  have p: "ps_response (parseSmsResponse (smsFromD1 ''1'')) = Some ''1''"
    by code_simp
  from receiveSmsWebhook_terminal_offer [OF h1 h2 h3 h4, of 500] p h1 h2
  show ?thesis by simp
qed

text \<open>
  C6 (as stated) fails: driver D1's assignment A1 is already CONFIRMED when the accept
  message from D1's number is delivered again, and the handler answers with
  \<open>success = False\<close>.
\<close>

theorem receiveSmsWebhook_redelivery_counterexample:
  "map (\<lambda>a. (da_id a, da_driverId a, da_status a)) (assignments afterAccept) =
     [(''A1'', ''D1'', D_CONFIRMED)] \<and>
   map dr_phoneNumber (drivers afterAccept) = [''+15550001''] \<and>
   wr_success (fst (receiveSmsWebhook (smsFromD1 ''1'') 500 afterAccept)) = False \<and>
   snd (receiveSmsWebhook (smsFromD1 ''1'') 500 afterAccept) = afterAccept"
proof -
  have r: "wr_success (fst (receiveSmsWebhook (smsFromD1 ''1'') 500 afterAccept)) = False"
    "snd (receiveSmsWebhook (smsFromD1 ''1'') 500 afterAccept) = afterAccept"
    by (simp_all add: receiveSmsWebhook_def Let_def parseSmsResponse_ids)
  have s: "map (\<lambda>a. (da_id a, da_driverId a, da_status a)) (assignments afterAccept) =
     [(''A1'', ''D1'', D_CONFIRMED)]"
    "map dr_phoneNumber (drivers afterAccept) = [''+15550001'']"
    by (simp_all add: example_defs)
  from r s show ?thesis by simp
qed

text \<open>
  C7 (the code at the failing input). Driver D1, whose phone number is +15550001, holds
  the only DISPATCHED assignment A1. The reply \<open>''1''\<close> from that number is recognised
  as an accept, but the handler finds no identifiers in the parse result, answers
  "missing IDs" with \<open>success = False\<close>, and leaves the assignment DISPATCHED.
\<close>

theorem receiveSmsWebhook_never_correlates:
  "map dr_phoneNumber (drivers dispatched) = [''+15550001''] \<and>
   map (\<lambda>a. (da_id a, da_driverId a, da_status a)) (assignments dispatched) =
     [(''A1'', ''D1'', D_DISPATCHED)] \<and>
   ps_response (parseSmsResponse (smsFromD1 ''1'')) = Some ''1'' \<and>
   receiveSmsWebhook (smsFromD1 ''1'') 500 dispatched =
     (\<lparr>wr_success = False, wr_message = ''Could not process SMS response - missing IDs'',
       wr_processedAt = 500, wr_driverId = None, wr_assignmentId = None,
       wr_nextAction = None\<rparr>, dispatched)"
proof -
  have p: "parseSmsResponse (smsFromD1 ''1'') =
      \<lparr>ps_response = Some ''1'', ps_driverId = None, ps_assignmentId = None\<rparr>"
    by code_simp
  have r: "receiveSmsWebhook (smsFromD1 ''1'') 500 dispatched =
     (\<lparr>wr_success = False, wr_message = ''Could not process SMS response - missing IDs'',
       wr_processedAt = 500, wr_driverId = None, wr_assignmentId = None,
       wr_nextAction = None\<rparr>, dispatched)"
    by (simp add: p receiveSmsWebhook_def Let_def)
  have s: "map dr_phoneNumber (drivers dispatched) = [''+15550001'']"
    "map (\<lambda>a. (da_id a, da_driverId a, da_status a)) (assignments dispatched) =
       [(''A1'', ''D1'', D_DISPATCHED)]"
    by (simp_all add: example_defs)
  from p r s show ?thesis by simp
qed

end
